theory Spec2Isabelle
  imports Main "HOL-Library.AList" "HOL-Library.Sublist"
begin

section \<open>Values, snapshots, field configuration\<close>

text \<open>
  A JavaScript value as the form state holds it. Numbers are restricted to integers.
  Arrays and objects carry the identity of the object (a reference), which is all that
  the strict comparison \<^verbatim>\<open>!==\<close> looks at; their content is what
  \<^verbatim>\<open>JSON.stringify\<close> looks at. An object is a plain object (its prototype is
  \<^verbatim>\<open>Object.prototype\<close>), given as the list of its own enumerable properties in the
  order of \<^verbatim>\<open>Object.keys\<close>. A function is a built-in one, known by its name. The
  reference 0 is \<^verbatim>\<open>Object.prototype\<close> itself.
\<close>

type_synonym ref = nat

datatype jsval =
    JUndefined
  | JNull
  | JBool bool
  | JNum int
  | JStr string
  | JFunction string
  | JArr ref "jsval list"
  | JObj ref "(string \<times> jsval) list"

text \<open>A thrown value, with the text that string interpolation gives it.\<close>

datatype js_error = JsError string

text \<open>
  \<^verbatim>\<open>xs.map(f)\<close> and \<^verbatim>\<open>xs.forEach(f)\<close> for a callback that may throw: the first
  exception leaves.
\<close>

fun map_result :: "('a \<Rightarrow> 'e + 'b) \<Rightarrow> 'a list \<Rightarrow> 'e + 'b list" where
  "map_result f [] = Inr []"
| "map_result f (x # xs) =
     (case f x of
        Inl e \<Rightarrow> Inl e
      | Inr y \<Rightarrow> (case map_result f xs of Inl e \<Rightarrow> Inl e | Inr ys \<Rightarrow> Inr (y # ys)))"

text \<open>\<^verbatim>\<open>a === b\<close>: primitives by value, arrays and objects by identity.\<close>

fun strict_eq :: "jsval \<Rightarrow> jsval \<Rightarrow> bool" where
  "strict_eq JUndefined JUndefined = True"
| "strict_eq JNull JNull = True"
| "strict_eq (JBool a) (JBool b) = (a = b)"
| "strict_eq (JNum a) (JNum b) = (a = b)"
| "strict_eq (JStr a) (JStr b) = (a = b)"
| "strict_eq (JFunction f) (JFunction g) = (f = g)"
| "strict_eq (JArr r _) (JArr r' _) = (r = r')"
| "strict_eq (JObj r _) (JObj r' _) = (r = r')"
| "strict_eq _ _ = False"

text \<open>Truthiness, as \<^verbatim>\<open>!x\<close>, \<^verbatim>\<open>x && y\<close> and \<^verbatim>\<open>x || y\<close> read a value.\<close>

fun truthy :: "jsval \<Rightarrow> bool" where
  "truthy JUndefined = False"
| "truthy JNull = False"
| "truthy (JBool b) = b"
| "truthy (JNum n) = (n \<noteq> 0)"
| "truthy (JStr s) = (s \<noteq> [])"
| "truthy (JFunction _) = True"
| "truthy (JArr _ _) = True"
| "truthy (JObj _ _) = True"

fun typeof :: "jsval \<Rightarrow> string" where
  "typeof JUndefined = ''undefined''"
| "typeof JNull = ''object''"
| "typeof (JBool _) = ''boolean''"
| "typeof (JNum _) = ''number''"
| "typeof (JStr _) = ''string''"
| "typeof (JFunction _) = ''function''"
| "typeof (JArr _ _) = ''object''"
| "typeof (JObj _ _) = ''object''"

text \<open>
  What a plain object inherits: the methods of \<^verbatim>\<open>Object.prototype\<close> and, under
  \<^verbatim>\<open>__proto__\<close>, an accessor whose getter returns the prototype.
\<close>

definition Object_prototype_methods :: "string list" where
  "Object_prototype_methods =
     [''constructor'', ''__defineGetter__'', ''__defineSetter__'', ''hasOwnProperty'',
      ''__lookupGetter__'', ''__lookupSetter__'', ''isPrototypeOf'',
      ''propertyIsEnumerable'', ''toString'', ''valueOf'', ''toLocaleString'']"

definition inherited :: "string \<Rightarrow> jsval" where
  "inherited k =
     (if k = ''__proto__'' then JObj 0 []
      else if k \<in> set Object_prototype_methods then JFunction k
      else JUndefined)"

text \<open>
  A state object \<^verbatim>\<open>T extends Record<string, any>\<close>: its own properties in key
  order. \<^verbatim>\<open>state[field]\<close> is the own property of that name, else what the object
  inherits, else \<^verbatim>\<open>undefined\<close>.
\<close>

type_synonym state = "(string \<times> jsval) list"

definition get_field :: "state \<Rightarrow> string \<Rightarrow> jsval" where
  "get_field s k = (case map_of s k of None \<Rightarrow> inherited k | Some v \<Rightarrow> v)"

text \<open>
  \<^verbatim>\<open>obj[key] = value\<close> on an object that was created as \<^verbatim>\<open>{}\<close>, on the list
  of its own properties: the key \<^verbatim>\<open>__proto__\<close> goes to the inherited setter, which
  makes no own property (it replaces the prototype when the value is an object or
  \<^verbatim>\<open>null\<close>; \<^verbatim>\<open>Object.keys\<close> and \<^verbatim>\<open>Object.entries\<close> see own properties
  only); every other key becomes, or stays, an own property.
\<close>

definition js_assign :: "string \<Rightarrow> 'v \<Rightarrow> (string \<times> 'v) list \<Rightarrow> (string \<times> 'v) list" where
  "js_assign key v obj = (if key = ''__proto__'' then obj else AList.update key v obj)"

text \<open>
  \<^verbatim>\<open>interface FormSnapshot<T>\<close>. The types of the state and of the metadata are
  parameters: each module reads them at the type it declares. The field \<^verbatim>\<open>id\<close> is
  \<open>id'\<close> here.
\<close>

record ('s, 'm) FormSnapshot =
  id' :: string
  timestamp :: int
  state :: 's
  version :: string
  metadata :: "'m option"

text \<open>
  \<^verbatim>\<open>interface SnapshotFieldConfig\<close>; \<open>required\<close> is one of the open extension
  keys, the one \<^verbatim>\<open>validateSnapshot\<close> reads. A form configuration lists its fields
  in the order of \<^verbatim>\<open>Object.entries\<close>.
\<close>

record SnapshotFieldConfig =
  ftype :: "string option"
  label :: "string option"
  important :: "bool option"
  required :: "bool option"

type_synonym SnapshotFormConfig = "(string \<times> SnapshotFieldConfig) list"

text \<open>An optional boolean read as a condition: \<^verbatim>\<open>undefined\<close> is falsy.\<close>

definition flag :: "bool option \<Rightarrow> bool" where
  "flag b = (b = Some True)"

datatype FieldChange = FieldChange (change_from: jsval) (change_to: jsval)

type_synonym StateChanges = "(string \<times> FieldChange) list"

text \<open>
  \<^verbatim>\<open>interface SnapshotMetadata<T>\<close>: the two documented keys and the open rest.
\<close>

record SnapshotMetadata =
  auto :: "bool option"
  meta_changes :: "StateChanges option"
  meta_rest :: "(string \<times> jsval) list"

section \<open>Snapshot store (class FormSnapshotManager)\<close>

text \<open>
  What the manager calls and does not define: the injected \<^verbatim>\<open>Storage\<close> (over a
  storage state \<open>'st\<close>), \<^verbatim>\<open>JSON.stringify\<close> and \<^verbatim>\<open>JSON.parse\<close> at the type
  of a snapshot list, and the four functions of the optional encoding. Every one of them
  may throw (\<open>Inl\<close>). What \<^verbatim>\<open>JSON.parse\<close> returns is an array of snapshots, or
  a value that is no array (\<^verbatim>\<open>null\<close>, an object, a number, a string, a boolean):
  the stored text decides.
\<close>

datatype 'a parsed = ParsedArray "'a list" | ParsedOther

record ('st, 'a) Env =
  getItem :: "'st \<Rightarrow> string \<Rightarrow> js_error + string option"
  setItem :: "'st \<Rightarrow> string \<Rightarrow> string \<Rightarrow> js_error + 'st"
  removeItem :: "'st \<Rightarrow> string \<Rightarrow> js_error + 'st"
  JSON_stringify :: "'a list \<Rightarrow> js_error + string"
  JSON_parse :: "string \<Rightarrow> js_error + 'a parsed"
  btoa :: "string \<Rightarrow> js_error + string"
  atob :: "string \<Rightarrow> js_error + string"
  encodeURIComponent :: "string \<Rightarrow> js_error + string"
  decodeURIComponent :: "string \<Rightarrow> js_error + string"

text \<open>The storage state and the lines written by \<^verbatim>\<open>console.error\<close>.\<close>

record 'st World =
  store :: 'st
  console :: "string list"

record SnapshotOptions =
  opt_maxSnapshots :: "int option"
  opt_autoCleanup :: "bool option"
  opt_compressionEnabled :: "bool option"
  opt_namespace :: "string option"

record FormSnapshotManager =
  maxSnapshots :: int
  autoCleanup :: bool
  compressionEnabled :: bool
  namespace :: string
  snapshotKey :: string

text \<open>The constructor: \<^verbatim>\<open>||\<close> replaces a falsy option, \<^verbatim>\<open>??\<close> a missing one.\<close>

definition new_manager :: "string \<Rightarrow> SnapshotOptions \<Rightarrow> FormSnapshotManager" where
  "new_manager formId options =
     (let ns = (case opt_namespace options of
                  None \<Rightarrow> ''form_snapshots''
                | Some n \<Rightarrow> if n = [] then ''form_snapshots'' else n)
      in \<lparr> maxSnapshots = (case opt_maxSnapshots options of
                             None \<Rightarrow> 10
                           | Some n \<Rightarrow> if n = 0 then 10 else n),
           autoCleanup = (case opt_autoCleanup options of None \<Rightarrow> True | Some b \<Rightarrow> b),
           compressionEnabled =
             (case opt_compressionEnabled options of None \<Rightarrow> False | Some b \<Rightarrow> b),
           namespace = ns,
           snapshotKey = ns @ ''_'' @ formId \<rparr>)"

definition compress ::
  "('st, 'a) Env \<Rightarrow> FormSnapshotManager \<Rightarrow> string \<Rightarrow> js_error + string" where
  "compress env m data =
     (if \<not> compressionEnabled m then Inr data
      else (case encodeURIComponent env data of
              Inl e \<Rightarrow> Inl e
            | Inr u \<Rightarrow> btoa env u))"

definition decompress ::
  "('st, 'a) Env \<Rightarrow> FormSnapshotManager \<Rightarrow> string \<Rightarrow> js_error + string" where
  "decompress env m data =
     (if \<not> compressionEnabled m then Inr data
      else (case atob env data of
              Inl e \<Rightarrow> Inl e
            | Inr u \<Rightarrow> decodeURIComponent env u))"

text \<open>The body of the \<^verbatim>\<open>try\<close> block of \<^verbatim>\<open>getSnapshots\<close>.\<close>

definition getSnapshots_try ::
  "('st, 'a) Env \<Rightarrow> FormSnapshotManager \<Rightarrow> 'st \<Rightarrow> js_error + 'a parsed" where
  "getSnapshots_try env m st =
     (case getItem env st (snapshotKey m) of
        Inl e \<Rightarrow> Inl e
      | Inr None \<Rightarrow> Inr (ParsedArray [])
      | Inr (Some data) \<Rightarrow>
          if data = [] then Inr (ParsedArray [])
          else (case decompress env m data of
                  Inl e \<Rightarrow> Inl e
                | Inr text \<Rightarrow> JSON_parse env text))"

text \<open>
  \<^verbatim>\<open>getSnapshots\<close>: the \<^verbatim>\<open>catch\<close> logs and returns the empty list. What was
  parsed is returned as it is, array or not.
\<close>

definition getSnapshots ::
  "('st, 'a) Env \<Rightarrow> FormSnapshotManager \<Rightarrow> 'st World \<Rightarrow> 'a parsed \<times> 'st World" where
  "getSnapshots env m w =
     (case getSnapshots_try env m (store w) of
        Inl e \<Rightarrow>
          (ParsedArray [], w\<lparr>console := console w @ [''Error loading snapshots:'']\<rparr>)
      | Inr snapshots \<Rightarrow> (snapshots, w))"

text \<open>\<^verbatim>\<open>saveSnapshots\<close> has no handler: what it calls throws through it.\<close>

definition saveSnapshots ::
  "('st, 'a) Env \<Rightarrow> FormSnapshotManager \<Rightarrow> 'a list \<Rightarrow> 'st World
     \<Rightarrow> (js_error + unit) \<times> 'st World" where
  "saveSnapshots env m snapshots w =
     (case JSON_stringify env snapshots of
        Inl e \<Rightarrow> (Inl e, w)
      | Inr json \<Rightarrow>
          (case compress env m json of
             Inl e \<Rightarrow> (Inl e, w)
           | Inr data \<Rightarrow>
               (case setItem env (store w) (snapshotKey m) data of
                  Inl e \<Rightarrow> (Inl e, w)
                | Inr st' \<Rightarrow> (Inr (), w\<lparr>store := st'\<rparr>))))"

text \<open>
  \<^verbatim>\<open>createSnapshot\<close>. \<open>uuid\<close> is what \<^verbatim>\<open>crypto.randomUUID()\<close> returns and
  \<open>now\<close> what \<^verbatim>\<open>Date.now()\<close> returns. \<^verbatim>\<open>push\<close> appends, \<^verbatim>\<open>shift\<close> drops
  the first element. On a value that is no array, \<^verbatim>\<open>snapshots.push\<close> is a
  \<^verbatim>\<open>TypeError\<close>, outside every handler.
\<close>

definition createSnapshot ::
  "('st, ('s, 'm) FormSnapshot) Env \<Rightarrow> FormSnapshotManager \<Rightarrow> string \<Rightarrow> int \<Rightarrow> 's
     \<Rightarrow> 'm option \<Rightarrow> 'st World \<Rightarrow> (js_error + ('s, 'm) FormSnapshot) \<times> 'st World" where
  "createSnapshot env m uuid now st md w =
     (let (loaded, w1) = getSnapshots env m w;
          snapshot = \<lparr> id' = uuid, timestamp = now, state = st,
                       version = ''1.0'', metadata = md \<rparr>
      in case loaded of
           ParsedOther \<Rightarrow> (Inl (JsError ''TypeError''), w1)
         | ParsedArray snapshots \<Rightarrow>
             (let pushed = snapshots @ [snapshot];
                  kept = (if autoCleanup m \<and> int (length pushed) > maxSnapshots m
                          then tl pushed else pushed)
              in case saveSnapshots env m kept w1 of
                   (Inl e, w2) \<Rightarrow> (Inl e, w2)
                 | (Inr u, w2) \<Rightarrow> (Inr snapshot, w2)))"

definition getAllSnapshots ::
  "('st, 'a) Env \<Rightarrow> FormSnapshotManager \<Rightarrow> 'st World \<Rightarrow> 'a parsed \<times> 'st World" where
  "getAllSnapshots env m w = getSnapshots env m w"

text \<open>
  \<^verbatim>\<open>createAutoSnapshot\<close>. The first pass is \<^verbatim>\<open>Object.entries(formConfig).some\<close>,
  the second \<^verbatim>\<open>Object.keys(formConfig).forEach\<close>, writing
  \<^verbatim>\<open>changes[field]\<close>: both go over the keys of the configuration and compare with
  \<^verbatim>\<open>!==\<close>.
\<close>

definition hasImportantChanges :: "SnapshotFormConfig \<Rightarrow> state \<Rightarrow> state \<Rightarrow> bool" where
  "hasImportantChanges formConfig currentState prevState =
     list_ex (\<lambda>(key, config).
        flag (important config)
        \<and> \<not> strict_eq (get_field currentState key) (get_field prevState key)) formConfig"

definition autoChanges :: "SnapshotFormConfig \<Rightarrow> state \<Rightarrow> state \<Rightarrow> StateChanges" where
  "autoChanges formConfig currentState prevState =
     fold (\<lambda>key changes.
        if \<not> strict_eq (get_field currentState key) (get_field prevState key)
        then js_assign key
               (FieldChange (get_field prevState key) (get_field currentState key)) changes
        else changes) (map fst formConfig) []"

definition createAutoSnapshot ::
  "('st, (state, SnapshotMetadata) FormSnapshot) Env \<Rightarrow> FormSnapshotManager \<Rightarrow> string
     \<Rightarrow> int \<Rightarrow> SnapshotFormConfig \<Rightarrow> state \<Rightarrow> state \<Rightarrow> 'st World
     \<Rightarrow> (js_error + (state, SnapshotMetadata) FormSnapshot option) \<times> 'st World" where
  "createAutoSnapshot env m uuid now formConfig currentState prevState w =
     (if hasImportantChanges formConfig currentState prevState
      then (case createSnapshot env m uuid now currentState
                   (Some \<lparr> auto = Some True,
                           meta_changes = Some (autoChanges formConfig currentState prevState),
                           meta_rest = [] \<rparr>) w of
              (Inl e, w') \<Rightarrow> (Inl e, w')
            | (Inr snapshot, w') \<Rightarrow> (Inr (Some snapshot), w'))
      else (Inr None, w))"

section \<open>Version order and Array.prototype.sort\<close>

text \<open>\<^verbatim>\<open>s.split(c)\<close> for a separator of one character: never an empty list.\<close>

fun split_on :: "char \<Rightarrow> string \<Rightarrow> string list" where
  "split_on c [] = [[]]"
| "split_on c (x # xs) =
     (if x = c then [] # split_on c xs
      else (case split_on c xs of
              [] \<Rightarrow> [[x]]
            | p # ps \<Rightarrow> (x # p) # ps))"

definition is_digit :: "char \<Rightarrow> bool" where
  "is_digit c = (48 \<le> (of_char c :: nat) \<and> (of_char c :: nat) \<le> 57)"

definition digit_value :: "char \<Rightarrow> nat" where
  "digit_value c = of_char c - 48"

definition decimal_value :: "string \<Rightarrow> nat" where
  "decimal_value s = foldl (\<lambda>a c. 10 * a + digit_value c) 0 s"

text \<open>
  \<^verbatim>\<open>Number(s)\<close> on a segment of a version string; \<open>None\<close> is \<^verbatim>\<open>NaN\<close>. The
  empty string is 0, a string of decimal digits is its value, with an optional sign.
  The other numeric literals of JavaScript (surrounding white space, exponents, the
  prefixes \<^verbatim>\<open>0x\<close>, \<^verbatim>\<open>0o\<close>, \<^verbatim>\<open>0b\<close>, \<^verbatim>\<open>Infinity\<close>) are read as
  \<^verbatim>\<open>NaN\<close> here.
\<close>

definition Number :: "string \<Rightarrow> int option" where
  "Number s =
     (case s of
        [] \<Rightarrow> Some 0
      | c # cs \<Rightarrow>
          if c = CHR ''-'' \<and> cs \<noteq> [] \<and> list_all is_digit cs
            then Some (- int (decimal_value cs))
          else if c = CHR ''+'' \<and> cs \<noteq> [] \<and> list_all is_digit cs
            then Some (int (decimal_value cs))
          else if list_all is_digit s then Some (int (decimal_value s))
          else None)"

text \<open>
  \<^verbatim>\<open>parts[i] || 0\<close>: a missing segment (\<^verbatim>\<open>undefined\<close>), \<^verbatim>\<open>NaN\<close> and 0
  all give 0.
\<close>

definition part_at :: "int option list \<Rightarrow> nat \<Rightarrow> int" where
  "part_at parts i =
     (if i < length parts then (case parts ! i of None \<Rightarrow> 0 | Some n \<Rightarrow> n) else 0)"

function compareVersions_loop :: "int option list \<Rightarrow> int option list \<Rightarrow> nat \<Rightarrow> int" where
  "compareVersions_loop parts1 parts2 i =
     (if i < max (length parts1) (length parts2)
      then (let part1 = part_at parts1 i; part2 = part_at parts2 i
            in if part1 \<noteq> part2 then part1 - part2
               else compareVersions_loop parts1 parts2 (Suc i))
      else 0)"
  by pat_completeness auto
termination
  by (relation "measure (\<lambda>(parts1, parts2, i). max (length parts1) (length parts2) - i)") auto

declare compareVersions_loop.simps [simp del]

text \<open>
  \<^verbatim>\<open>compareVersions\<close>: the same function is written twice, as a method of the
  migration manager and as a function of the report module.
\<close>

definition compareVersions :: "string \<Rightarrow> string \<Rightarrow> int" where
  "compareVersions v1 v2 =
     compareVersions_loop (map Number (split_on CHR ''.'' v1))
                          (map Number (split_on CHR ''.'' v2)) 0"

text \<open>
  \<^verbatim>\<open>xs.sort(cmp)\<close>, a stable sort: an element goes before the first element it
  does not compare greater than.
\<close>

fun insert_by :: "('a \<Rightarrow> 'a \<Rightarrow> int) \<Rightarrow> 'a \<Rightarrow> 'a list \<Rightarrow> 'a list" where
  "insert_by cmp x [] = [x]"
| "insert_by cmp x (y # ys) =
     (if cmp x y \<le> 0 then x # y # ys else y # insert_by cmp x ys)"

definition sort_by :: "('a \<Rightarrow> 'a \<Rightarrow> int) \<Rightarrow> 'a list \<Rightarrow> 'a list" where
  "sort_by cmp xs = foldr (insert_by cmp) xs []"

text \<open>\<^verbatim>\<open>Array.from(new Set(xs))\<close>: the first occurrence of each element, in order.\<close>

definition new_Set :: "'a list \<Rightarrow> 'a list" where
  "new_Set xs = rev (remdups (rev xs))"

section \<open>Migration manager (class SnapshotMigrationManager)\<close>

datatype direction = Up | Down

definition direction_text :: "direction \<Rightarrow> string" where
  "direction_text d = (case d of Up \<Rightarrow> ''up'' | Down \<Rightarrow> ''down'')"

text \<open>
  \<^verbatim>\<open>interface Migration\<close>; its \<^verbatim>\<open>version\<close> is \<open>mig_version\<close>. \<^verbatim>\<open>up\<close> and
  \<^verbatim>\<open>down\<close> throw, or return a promise that rejects, as \<open>Inl\<close>.
\<close>

record 's Migration =
  mig_version :: string
  description :: string
  up :: "'s \<Rightarrow> js_error + 's"
  down :: "'s \<Rightarrow> js_error + 's"

text \<open>One element of \<^verbatim>\<open>metadata.migrations\<close>.\<close>

record MigrationEntry =
  entry_version :: string
  entry_direction :: direction
  entry_timestamp :: int
  entry_description :: string

text \<open>The metadata as the manager reads it: \<^verbatim>\<open>migrations\<close> (here
  \<open>meta_migrations\<close>) and the other keys.\<close>

record MigrationMetadata =
  meta_migrations :: "MigrationEntry list option"
  other_keys :: "(string \<times> jsval) list"

text \<open>\<^verbatim>\<open>class SnapshotMigrationError\<close>: message, version, snapshot.\<close>

datatype 'a SnapshotMigrationError =
  SnapshotMigrationError (err_message: string) (err_version: string) (err_snapshot: 'a)

definition error_text :: "js_error \<Rightarrow> string" where
  "error_text e = (case e of JsError t \<Rightarrow> t)"

text \<open>\<^verbatim>\<open>addMigration\<close>: push, then sort the whole list by version.\<close>

definition addMigration :: "'s Migration list \<Rightarrow> 's Migration \<Rightarrow> 's Migration list" where
  "addMigration migrations migration =
     sort_by (\<lambda>a b. compareVersions (mig_version a) (mig_version b))
       (migrations @ [migration])"

text \<open>
  \<^verbatim>\<open>executeMigration\<close>; \<open>now\<close> is what \<^verbatim>\<open>Date.now()\<close> returns. The spread of a
  missing metadata contributes no key.
\<close>

definition executeMigration ::
  "('s, MigrationMetadata) FormSnapshot \<Rightarrow> 's Migration \<Rightarrow> direction \<Rightarrow> int
     \<Rightarrow> ('s, MigrationMetadata) FormSnapshot SnapshotMigrationError
         + ('s, MigrationMetadata) FormSnapshot" where
  "executeMigration snapshot migration dir now =
     (let migrateFn = (if dir = Up then up migration else down migration)
      in case migrateFn (state snapshot) of
           Inl e \<Rightarrow>
             Inl (SnapshotMigrationError
                    (''Migration '' @ direction_text dir @ '' to version ''
                       @ mig_version migration @ '' failed: '' @ error_text e)
                    (mig_version migration) snapshot)
         | Inr newState \<Rightarrow>
             Inr (snapshot\<lparr>
               state := newState,
               version := mig_version migration,
               metadata := Some \<lparr>
                 meta_migrations = Some
                   ((case metadata snapshot of
                       None \<Rightarrow> []
                     | Some md \<Rightarrow> (case meta_migrations md of None \<Rightarrow> [] | Some ms \<Rightarrow> ms))
                    @ [\<lparr> entry_version = mig_version migration, entry_direction = dir,
                          entry_timestamp = now,
                          entry_description = description migration \<rparr>]),
                 other_keys = (case metadata snapshot of
                                 None \<Rightarrow> []
                               | Some md \<Rightarrow> other_keys md) \<rparr> \<rparr>))"

text \<open>
  The \<^verbatim>\<open>for\<close> loop of \<^verbatim>\<open>migrateToVersion\<close>; \<open>clock k\<close> is the value of the
  \<open>k\<close>-th call of \<^verbatim>\<open>Date.now()\<close>. An error leaves the loop.
\<close>

fun migrate_loop ::
  "direction \<Rightarrow> (nat \<Rightarrow> int) \<Rightarrow> nat \<Rightarrow> ('s, MigrationMetadata) FormSnapshot
     \<Rightarrow> 's Migration list
     \<Rightarrow> ('s, MigrationMetadata) FormSnapshot SnapshotMigrationError
         + ('s, MigrationMetadata) FormSnapshot" where
  "migrate_loop dir clock k currentSnapshot [] = Inr currentSnapshot"
| "migrate_loop dir clock k currentSnapshot (migration # rest) =
     (case executeMigration currentSnapshot migration dir (clock k) of
        Inl e \<Rightarrow> Inl e
      | Inr next \<Rightarrow> migrate_loop dir clock (Suc k) next rest)"

definition relevantMigrations ::
  "'s Migration list \<Rightarrow> string \<Rightarrow> string \<Rightarrow> 's Migration list" where
  "relevantMigrations migrations currentVersion targetVersion =
     (let isUpgrade = (compareVersions targetVersion currentVersion > 0)
      in sort_by (\<lambda>a b. if isUpgrade
                        then compareVersions (mig_version a) (mig_version b)
                        else compareVersions (mig_version b) (mig_version a))
           (filter (\<lambda>m. if isUpgrade
                         then compareVersions (mig_version m) currentVersion > 0
                              \<and> compareVersions (mig_version m) targetVersion \<le> 0
                         else compareVersions (mig_version m) currentVersion \<le> 0
                              \<and> compareVersions (mig_version m) targetVersion > 0)
              migrations))"

text \<open>
  \<^verbatim>\<open>migrateToVersion\<close> over the registered migrations. The calls of the logger are
  left out: they do not enter the result.
\<close>

definition migrateToVersion ::
  "'s Migration list \<Rightarrow> (nat \<Rightarrow> int) \<Rightarrow> ('s, MigrationMetadata) FormSnapshot \<Rightarrow> string
     \<Rightarrow> ('s, MigrationMetadata) FormSnapshot SnapshotMigrationError
         + ('s, MigrationMetadata) FormSnapshot" where
  "migrateToVersion migrations clock snapshot targetVersion =
     (let currentVersion = version snapshot
      in if compareVersions currentVersion targetVersion = 0 then Inr snapshot
         else migrate_loop
                (if compareVersions targetVersion currentVersion > 0 then Up else Down)
                clock 0 snapshot
                (relevantMigrations migrations currentVersion targetVersion))"

section \<open>JSON.stringify on values\<close>

function show_nat :: "nat \<Rightarrow> string" where
  "show_nat n =
     (if n < 10 then [char_of (48 + n)]
      else show_nat (n div 10) @ [char_of (48 + n mod 10)])"
  by pat_completeness auto
termination
  by (relation "measure id") auto

declare show_nat.simps [simp del]

definition show_int :: "int \<Rightarrow> string" where
  "show_int i = (if i < 0 then ''-'' @ show_nat (nat (- i)) else show_nat (nat i))"

definition hex_digit :: "nat \<Rightarrow> char" where
  "hex_digit d = (if d < 10 then char_of (48 + d) else char_of (87 + d))"

text \<open>
  \<^verbatim>\<open>QuoteJSONString\<close>: the quote, the backslash and the control characters are
  escaped.
\<close>

definition quote_char :: "char \<Rightarrow> string" where
  "quote_char c =
     (let n = (of_char c :: nat)
      in if n = 34 then [CHR 0x5C, CHR 0x22]
         else if n = 92 then [CHR 0x5C, CHR 0x5C]
         else if n = 8 then [CHR 0x5C, CHR ''b'']
         else if n = 12 then [CHR 0x5C, CHR ''f'']
         else if n = 10 then [CHR 0x5C, CHR ''n'']
         else if n = 13 then [CHR 0x5C, CHR ''r'']
         else if n = 9 then [CHR 0x5C, CHR ''t'']
         else if n < 32
           then [CHR 0x5C, CHR ''u'', CHR ''0'', CHR ''0'', hex_digit (n div 16),
                 hex_digit (n mod 16)]
         else [c])"

definition quote :: "string \<Rightarrow> string" where
  "quote s = [CHR 0x22] @ concat (map quote_char s) @ [CHR 0x22]"

text \<open>\<^verbatim>\<open>xs.join(sep)\<close>.\<close>

fun join :: "string \<Rightarrow> string list \<Rightarrow> string" where
  "join sep [] = []"
| "join sep [x] = x"
| "join sep (x # y # ys) = x @ sep @ join sep (y # ys)"

text \<open>
  The brackets around the serialized elements of an array or properties of an object:
  with an empty \<open>gap\<close> on one line, else one element a line, indented.
\<close>

definition wrap_items :: "string \<Rightarrow> string \<Rightarrow> string \<Rightarrow> string \<Rightarrow> string list \<Rightarrow> string" where
  "wrap_items opening closing gap indent items =
     (if items = [] then opening @ closing
      else if gap = [] then opening @ join '','' items @ closing
      else opening @ [CHR 0x0A] @ indent @ gap
             @ join ('','' @ [CHR 0x0A] @ indent @ gap) items
             @ [CHR 0x0A] @ indent @ closing)"

text \<open>
  \<^verbatim>\<open>JSON.stringify(value, null, gap)\<close> at the indentation \<open>indent\<close>; \<open>None\<close> is
  the result \<^verbatim>\<open>undefined\<close>, which is also the result on a function. Such an
  element of an array is written \<^verbatim>\<open>null\<close>, such a property of an object is left
  out. The identity of an array or object is not written.
\<close>

fun stringify_gap :: "string \<Rightarrow> string \<Rightarrow> jsval \<Rightarrow> string option" where
  "stringify_gap gap indent JUndefined = None"
| "stringify_gap gap indent JNull = Some ''null''"
| "stringify_gap gap indent (JBool b) = Some (if b then ''true'' else ''false'')"
| "stringify_gap gap indent (JNum n) = Some (show_int n)"
| "stringify_gap gap indent (JStr s) = Some (quote s)"
| "stringify_gap gap indent (JFunction f) = None"
| "stringify_gap gap indent (JArr r xs) =
     Some (wrap_items ''['' '']'' gap indent
       (map (\<lambda>x. case stringify_gap gap (indent @ gap) x of
                    None \<Rightarrow> ''null''
                  | Some t \<Rightarrow> t) xs))"
| "stringify_gap gap indent (JObj r kvs) =
     Some (wrap_items ''{'' ''}'' gap indent
       (concat (map (\<lambda>kv. case stringify_gap gap (indent @ gap) (snd kv) of
                             None \<Rightarrow> []
                           | Some t \<Rightarrow>
                               [quote (fst kv) @ '':'' @ (if gap = [] then [] else '' '') @ t])
                  kvs)))"

text \<open>\<^verbatim>\<open>JSON.stringify(value)\<close> and \<^verbatim>\<open>JSON.stringify(value, null, 2)\<close>.\<close>

definition stringify :: "jsval \<Rightarrow> string option" where
  "stringify v = stringify_gap [] [] v"

definition stringify_pretty :: "jsval \<Rightarrow> string option" where
  "stringify_pretty v = stringify_gap ''  '' [] v"

section \<open>Snapshot differ and validator\<close>

record SnapshotDiff =
  added :: state
  removed :: state
  modified :: StateChanges
  unchanged :: "string list"

text \<open>
  The first loop of \<^verbatim>\<open>compareSnapshots\<close>, over \<^verbatim>\<open>keys2\<close>; \<^verbatim>\<open>added\<close>,
  \<^verbatim>\<open>removed\<close> and \<^verbatim>\<open>modified\<close> are created as \<^verbatim>\<open>{}\<close>.
\<close>

definition find_added :: "string list \<Rightarrow> string list \<Rightarrow> state \<Rightarrow> state" where
  "find_added keys1 keys2 state2 =
     fold (\<lambda>key acc.
        if key \<notin> set keys1 then js_assign key (get_field state2 key) acc else acc)
       keys2 []"

text \<open>
  One round of the second loop, over \<^verbatim>\<open>keys1\<close>, on the three results it writes.
\<close>

definition compare_key ::
  "string list \<Rightarrow> state \<Rightarrow> state \<Rightarrow> string \<Rightarrow> state \<times> StateChanges \<times> string list
     \<Rightarrow> state \<times> StateChanges \<times> string list" where
  "compare_key keys2 state1 state2 key acc =
     (case acc of (rmv, mdf, unch) \<Rightarrow>
        if key \<notin> set keys2
          then (js_assign key (get_field state1 key) rmv, mdf, unch)
        else if stringify (get_field state1 key) \<noteq> stringify (get_field state2 key)
          then (rmv,
                js_assign key
                  (FieldChange (get_field state1 key) (get_field state2 key)) mdf,
                unch)
        else (rmv, mdf, unch @ [key]))"

definition compareSnapshots ::
  "(state, 'm) FormSnapshot \<Rightarrow> (state, 'm) FormSnapshot \<Rightarrow> SnapshotDiff" where
  "compareSnapshots snapshot1 snapshot2 =
     (let keys1 = new_Set (map fst (state snapshot1));
          keys2 = new_Set (map fst (state snapshot2));
          found_added = find_added keys1 keys2 (state snapshot2);
          (rmv, mdf, unch) =
             fold (compare_key keys2 (state snapshot1) (state snapshot2)) keys1 ([], [], [])
      in \<lparr> added = found_added, removed = rmv, modified = mdf, unchanged = unch \<rparr>)"

record SnapshotValidationError =
  err_field :: "string option"
  message :: string
  code :: string

record SnapshotValidationResult =
  isValid :: bool
  errors :: "SnapshotValidationError list"

text \<open>
  What the engine gives for \<^verbatim>\<open>value[key]\<close> beyond the cases written out below: what
  an array inherits at a key (from \<^verbatim>\<open>Array.prototype\<close> and \<^verbatim>\<open>Object.prototype\<close>),
  and the property of a boolean, a number, a string or a function.
\<close>

record Engine =
  array_inherited :: "string \<Rightarrow> jsval"
  boxed_get :: "jsval \<Rightarrow> string \<Rightarrow> jsval"

text \<open>
  \<^verbatim>\<open>value[key]\<close>: a \<^verbatim>\<open>TypeError\<close> on \<^verbatim>\<open>undefined\<close> and \<^verbatim>\<open>null\<close>; on a plain
  object its own property or what it inherits; on an array the length, an element, or
  what it inherits.
\<close>

definition get_prop :: "Engine \<Rightarrow> jsval \<Rightarrow> string \<Rightarrow> js_error + jsval" where
  "get_prop engine v key =
     (case v of
        JUndefined \<Rightarrow> Inl (JsError ''TypeError'')
      | JNull \<Rightarrow> Inl (JsError ''TypeError'')
      | JObj r kvs \<Rightarrow> Inr (get_field kvs key)
      | JArr r xs \<Rightarrow>
          Inr (if key = ''length'' then JNum (int (length xs))
               else (case find (\<lambda>i. show_nat i = key) [0..<length xs] of
                       None \<Rightarrow> array_inherited engine key
                     | Some i \<Rightarrow> xs ! i))
      | _ \<Rightarrow> Inr (boxed_get engine v key))"

definition is_array :: "jsval \<Rightarrow> bool" where
  "is_array v = (case v of JArr r xs \<Rightarrow> True | _ \<Rightarrow> False)"

definition invalid_type :: "string \<Rightarrow> string \<Rightarrow> SnapshotValidationError" where
  "invalid_type field what =
     \<lparr> err_field = Some field,
       message = ''Field '' @ [CHR 0x22] @ field @ [CHR 0x22] @ '' must be '' @ what,
       code = ''INVALID_TYPE'' \<rparr>"

text \<open>\<^verbatim>\<open>value === undefined || value === null\<close>.\<close>

definition missing :: "jsval \<Rightarrow> bool" where
  "missing v = (v = JUndefined \<or> v = JNull)"

text \<open>The \<^verbatim>\<open>switch\<close> on \<^verbatim>\<open>fieldConfig.type\<close>: the errors it pushes.\<close>

definition type_errors :: "string \<Rightarrow> string option \<Rightarrow> jsval \<Rightarrow> SnapshotValidationError list" where
  "type_errors field declared v =
     (if declared = Some ''string'' then
        (if typeof v \<noteq> ''string'' then [invalid_type field ''a string''] else [])
      else if declared = Some ''number'' then
        (if typeof v \<noteq> ''number'' then [invalid_type field ''a number''] else [])
      else if declared = Some ''boolean'' then
        (if typeof v \<noteq> ''boolean'' then [invalid_type field ''a boolean''] else [])
      else if declared = Some ''array'' then
        (if \<not> is_array v then [invalid_type field ''an array''] else [])
      else [])"

text \<open>
  The callback of \<^verbatim>\<open>Object.entries(config).forEach\<close>: it reads
  \<^verbatim>\<open>snapshot.state[field]\<close>, which may throw, and pushes the errors of one field.
\<close>

definition validate_field ::
  "Engine \<Rightarrow> jsval \<Rightarrow> string \<Rightarrow> SnapshotFieldConfig
     \<Rightarrow> js_error + SnapshotValidationError list" where
  "validate_field engine st field fieldConfig =
     (case get_prop engine st field of
        Inl e \<Rightarrow> Inl e
      | Inr v \<Rightarrow>
          Inr ((if flag (required fieldConfig) \<and> missing v
                then [\<lparr> err_field = Some field,
                        message = ''Required field '' @ [CHR 0x22] @ field @ [CHR 0x22]
                                  @ '' is missing'',
                        code = ''REQUIRED_FIELD'' \<rparr>]
                else [])
               @ (if \<not> missing v then type_errors field (ftype fieldConfig) v else [])))"

text \<open>
  \<^verbatim>\<open>validateSnapshot\<close>. The state and the metadata are any value here: the function
  tests what they are. An exception of the loop is the result of the function.
\<close>

definition validateSnapshot ::
  "Engine \<Rightarrow> (jsval, jsval) FormSnapshot \<Rightarrow> SnapshotFormConfig
     \<Rightarrow> js_error + SnapshotValidationResult" where
  "validateSnapshot engine snapshot config =
     (if \<not> truthy (state snapshot) \<or> typeof (state snapshot) \<noteq> ''object''
      then Inr \<lparr> isValid = False,
                 errors = [\<lparr> err_field = None,
                             message = ''Invalid snapshot state structure'',
                             code = ''INVALID_STATE'' \<rparr>] \<rparr>
      else
        (case map_result (\<lambda>(field, fieldConfig).
                            validate_field engine (state snapshot) field fieldConfig)
                config of
           Inl e \<Rightarrow> Inl e
         | Inr pushed \<Rightarrow>
             (let metadata_errors =
                    (case metadata snapshot of
                       None \<Rightarrow> []
                     | Some md \<Rightarrow>
                         if truthy md \<and> typeof md \<noteq> ''object''
                         then [\<lparr> err_field = None,
                                 message = ''Invalid metadata structure'',
                                 code = ''INVALID_METADATA'' \<rparr>]
                         else []);
                  errs = concat pushed @ metadata_errors
              in Inr \<lparr> isValid = (length errs = 0), errors = errs \<rparr>)))"

text \<open>
  From the words of the specification of the validator: the state is an object-like
  mapping; a required field is not null or undefined; a field that is present and whose
  declared type is string, number, boolean or array has that type; the metadata, when
  present, is object-like.
\<close>

definition object_like :: "jsval \<Rightarrow> bool" where
  "object_like v = (truthy v \<and> typeof v = ''object'')"

definition field_value :: "Engine \<Rightarrow> jsval \<Rightarrow> string \<Rightarrow> jsval" where
  "field_value engine st field =
     (case get_prop engine st field of Inl e \<Rightarrow> JUndefined | Inr v \<Rightarrow> v)"

definition has_declared_type :: "string option \<Rightarrow> jsval \<Rightarrow> bool" where
  "has_declared_type declared v =
     (if declared = Some ''string'' then typeof v = ''string''
      else if declared = Some ''number'' then typeof v = ''number''
      else if declared = Some ''boolean'' then typeof v = ''boolean''
      else if declared = Some ''array'' then is_array v
      else True)"

definition conforms :: "Engine \<Rightarrow> (jsval, jsval) FormSnapshot \<Rightarrow> SnapshotFormConfig \<Rightarrow> bool" where
  "conforms engine snapshot config =
     (object_like (state snapshot)
      \<and> list_all (\<lambda>(field, fieldConfig).
            (flag (required fieldConfig)
               \<longrightarrow> \<not> missing (field_value engine (state snapshot) field))
            \<and> (\<not> missing (field_value engine (state snapshot) field)
               \<longrightarrow> has_declared_type (ftype fieldConfig)
                     (field_value engine (state snapshot) field))) config
      \<and> (case metadata snapshot of
           None \<Rightarrow> True
         | Some md \<Rightarrow> \<not> truthy md \<or> typeof md = ''object''))"

section \<open>Report generator\<close>

datatype Importance = High | Medium | Low

record ('s, 'm) ProcessedSnapshot =
  snapshot :: "('s, 'm) FormSnapshot"
  changes :: "StateChanges option"
  importance :: Importance

text \<open>
  \<^verbatim>\<open>options.filters\<close>. A date is the number \<^verbatim>\<open>getTime()\<close> gives; the keys
  \<^verbatim>\<open>versions\<close> and \<^verbatim>\<open>fields\<close> are \<open>filter_versions\<close> and \<open>filter_fields\<close>.
\<close>

record ReportFilters =
  fromDate :: "int option"
  toDate :: "int option"
  filter_versions :: "string list option"
  filter_fields :: "string list option"
  onlyImportant :: "bool option"

record ReportSummary =
  totalSnapshots :: nat
  dateRange_from :: int
  dateRange_to :: int
  versions :: "string list"
  totalChanges :: nat
  importantChanges :: nat

record ('s, 'm) SnapshotReport =
  summary :: ReportSummary
  snapshots :: "('s, 'm) ProcessedSnapshot list"

text \<open>\<^verbatim>\<open>config[field]?.important\<close> as a condition.\<close>

definition config_important :: "SnapshotFormConfig \<Rightarrow> string \<Rightarrow> bool" where
  "config_important config field =
     (case map_of config field of None \<Rightarrow> False | Some c \<Rightarrow> flag (important c))"

text \<open>\<^verbatim>\<open>!filters.fields || filters.fields.includes(String(field))\<close>.\<close>

definition field_selected :: "string list option \<Rightarrow> string \<Rightarrow> bool" where
  "field_selected only_fields field =
     (case only_fields of None \<Rightarrow> True | Some fs \<Rightarrow> field \<in> set fs)"

text \<open>
  The callback of \<^verbatim>\<open>Object.keys(snapshot.state).forEach\<close> in
  \<^verbatim>\<open>generateReport\<close>, on \<^verbatim>\<open>changes\<close> and \<^verbatim>\<open>importantChangeCount\<close>: the two
  values are compared through \<^verbatim>\<open>JSON.stringify\<close>.
\<close>

definition report_change ::
  "SnapshotFormConfig \<Rightarrow> string list option \<Rightarrow> state \<Rightarrow> state \<Rightarrow> string
     \<Rightarrow> StateChanges \<times> nat \<Rightarrow> StateChanges \<times> nat" where
  "report_change config only_fields cur prev key acc =
     (case acc of (chg, importantChangeCount) \<Rightarrow>
        if field_selected only_fields key
           \<and> stringify (get_field cur key) \<noteq> stringify (get_field prev key)
        then (js_assign key (FieldChange (get_field prev key) (get_field cur key)) chg,
              if config_important config key
              then importantChangeCount + 1 else importantChangeCount)
        else (chg, importantChangeCount))"

text \<open>The callback of \<^verbatim>\<open>filteredSnapshots.map\<close>.\<close>

definition process_snapshot ::
  "SnapshotFormConfig \<Rightarrow> string list option \<Rightarrow> (state, 'm) FormSnapshot option
     \<Rightarrow> (state, 'm) FormSnapshot \<Rightarrow> (state, 'm) ProcessedSnapshot" where
  "process_snapshot config only_fields previousSnapshot snap =
     (let (chg, importantChangeCount) =
            (case previousSnapshot of
               None \<Rightarrow> ([], 0)
             | Some prev \<Rightarrow>
                 fold (report_change config only_fields (state snap) (state prev))
                   (map fst (state snap)) ([], 0))
      in \<lparr> snapshot = snap,
           changes = (if length chg > 0 then Some chg else None),
           importance = (if importantChangeCount > 0 then High
                         else if length chg > 3 then Medium
                         else Low) \<rparr>)"

text \<open>The sort by time and the three filters on the snapshots.\<close>

definition filteredSnapshots ::
  "ReportFilters \<Rightarrow> ('s, 'm) FormSnapshot list \<Rightarrow> ('s, 'm) FormSnapshot list" where
  "filteredSnapshots filters snaps =
     (let sorted_snaps = sort_by (\<lambda>a b. timestamp a - timestamp b) snaps;
          after_from = (case fromDate filters of
                          None \<Rightarrow> sorted_snaps
                        | Some d \<Rightarrow> filter (\<lambda>s. timestamp s \<ge> d) sorted_snaps);
          after_to = (case toDate filters of
                        None \<Rightarrow> after_from
                      | Some d \<Rightarrow> filter (\<lambda>s. timestamp s \<le> d) after_from)
      in case filter_versions filters of
           None \<Rightarrow> after_to
         | Some [] \<Rightarrow> after_to
         | Some (v # vs) \<Rightarrow> filter (\<lambda>s. version s \<in> set (v # vs)) after_to)"

text \<open>The conditions of the three filters on one snapshot.\<close>

definition passes_filters :: "ReportFilters \<Rightarrow> ('s, 'm) FormSnapshot \<Rightarrow> bool" where
  "passes_filters filters s =
     ((case fromDate filters of None \<Rightarrow> True | Some d \<Rightarrow> timestamp s \<ge> d)
      \<and> (case toDate filters of None \<Rightarrow> True | Some d \<Rightarrow> timestamp s \<le> d)
      \<and> (case filter_versions filters of
           None \<Rightarrow> True
         | Some vs \<Rightarrow> vs = [] \<or> version s \<in> set vs))"

definition processedSnapshots ::
  "SnapshotFormConfig \<Rightarrow> ReportFilters \<Rightarrow> (state, 'm) FormSnapshot list
     \<Rightarrow> (state, 'm) ProcessedSnapshot list" where
  "processedSnapshots config filters snaps =
     (let filtered = filteredSnapshots filters snaps
      in map (\<lambda>index.
                process_snapshot config (filter_fields filters)
                  (if index > 0 then Some (filtered ! (index - 1)) else None)
                  (filtered ! index))
           [0..<length filtered])"

text \<open>\<^verbatim>\<open>x?.snapshot.timestamp || Date.now()\<close>: no element, or the time 0, gives now.\<close>

definition timestamp_or_now :: "('s, 'm) ProcessedSnapshot option \<Rightarrow> int \<Rightarrow> int" where
  "timestamp_or_now p now =
     (case p of
        None \<Rightarrow> now
      | Some q \<Rightarrow> if timestamp (snapshot q) = 0 then now else timestamp (snapshot q))"

text \<open>
  \<^verbatim>\<open>generateReport\<close>; both calls of \<^verbatim>\<open>Date.now()\<close> return \<open>now\<close>.
\<close>

definition generateReport ::
  "(state, 'm) FormSnapshot list \<Rightarrow> SnapshotFormConfig \<Rightarrow> ReportFilters \<Rightarrow> int
     \<Rightarrow> (state, 'm) SnapshotReport" where
  "generateReport snaps config filters now =
     (let processed = processedSnapshots config filters snaps;
          finalSnapshots = (if flag (onlyImportant filters)
                            then filter (\<lambda>s. importance s = High) processed
                            else processed)
      in \<lparr> summary = \<lparr>
             totalSnapshots = length finalSnapshots,
             dateRange_from =
               timestamp_or_now
                 (if finalSnapshots = [] then None else Some (hd finalSnapshots)) now,
             dateRange_to =
               timestamp_or_now
                 (if finalSnapshots = [] then None else Some (last finalSnapshots)) now,
             versions =
               sort_by compareVersions
                 (new_Set (map (\<lambda>s. version (snapshot s)) finalSnapshots)),
             totalChanges = length (filter (\<lambda>s. changes s \<noteq> None) finalSnapshots),
             importantChanges =
               length (filter (\<lambda>s. importance s = High) finalSnapshots) \<rparr>,
           snapshots = finalSnapshots \<rparr>)"

section \<open>Report formatters (HTML and Markdown)\<close>

text \<open>
  The methods of \<^verbatim>\<open>Date\<close> that the formatters call, on the time value of the date;
  \<^verbatim>\<open>toISOString\<close> throws on a time value out of range.
\<close>

record FormatEnv =
  toISOString :: "int \<Rightarrow> js_error + string"
  toLocaleString :: "int \<Rightarrow> string"
  toLocaleDateString :: "int \<Rightarrow> string"

definition nl :: string where
  "nl = [CHR 0x0A]"

definition dq :: string where
  "dq = [CHR 0x22]"

definition sq :: string where
  "sq = [CHR 0x27]"

text \<open>\<^verbatim>\<open>text.replace(/c/g, rep)\<close> for a pattern of one character.\<close>

definition replace_char :: "char \<Rightarrow> string \<Rightarrow> string \<Rightarrow> string" where
  "replace_char c rep text = concat (map (\<lambda>x. if x = c then rep else [x]) text)"

definition htmlEscape :: "string \<Rightarrow> string" where
  "htmlEscape text =
     replace_char (CHR 0x27) ''&#039;''
       (replace_char (CHR 0x22) ''&quot;''
         (replace_char CHR ''>'' ''&gt;''
           (replace_char CHR ''<'' ''&lt;''
             (replace_char CHR ''&'' ''&amp;'' text))))"

text \<open>
  \<^verbatim>\<open>htmlEscape(JSON.stringify(v, null, 2))\<close>: when \<^verbatim>\<open>JSON.stringify\<close> returns
  \<^verbatim>\<open>undefined\<close>, \<^verbatim>\<open>text.replace\<close> is a \<^verbatim>\<open>TypeError\<close>.
\<close>

definition htmlEscape_arg :: "string option \<Rightarrow> js_error + string" where
  "htmlEscape_arg t =
     (case t of
        None \<Rightarrow> Inl (JsError ''TypeError'')
      | Some text \<Rightarrow> Inr (htmlEscape text))"

definition importance_text :: "Importance \<Rightarrow> string" where
  "importance_text i = (case i of High \<Rightarrow> ''high'' | Medium \<Rightarrow> ''medium'' | Low \<Rightarrow> ''low'')"

text \<open>\<^verbatim>\<open>s.charAt(0).toUpperCase() + s.slice(1)\<close> on a word of small letters.\<close>

definition capitalize :: "string \<Rightarrow> string" where
  "capitalize s =
     (case s of
        [] \<Rightarrow> []
      | c # cs \<Rightarrow>
          (if 97 \<le> (of_char c :: nat) \<and> (of_char c :: nat) \<le> 122
           then char_of ((of_char c :: nat) - 32) else c) # cs)"

text \<open>The constant \<^verbatim>\<open>css\<close>.\<close>

definition css :: string where
  "css =
     concat
      [nl, ''<style>'', nl, ''  :root {'', nl, ''    --primary: #3b82f6;'', nl,
       ''    --success: #22c55e;'', nl, ''    --warning: #eab308;'', nl,
       ''    --danger: #ef4444;'', nl, ''    --gray: #6b7280;'', nl, ''  }'', nl, ''  '', nl,
       ''  body {'', nl, ''    font-family: -apple-system, BlinkMacSystemFont, '', dq,
       ''Segoe UI'', dq, '', Roboto, sans-serif;'', nl, ''    line-height: 1.5;'', nl,
       ''    max-width: 1200px;'', nl, ''    margin: 0 auto;'', nl, ''    padding: 2rem;'',
       nl, ''    color: #1f2937;'', nl, ''  }'', nl, ''  '', nl,
       ''  @media (prefers-color-scheme: dark) {'', nl, ''    body {'', nl,
       ''      background-color: #111827;'', nl, ''      color: #f9fafb;'', nl, ''    }'',
       nl, ''  }'', nl, ''  '', nl, ''  h1, h2, h3, h4 { margin-top: 2rem; }'', nl, ''  '',
       nl, ''  .card {'', nl, ''    background: white;'', nl, ''    border-radius: 0.5rem;'',
       nl, ''    box-shadow: 0 1px 3px rgba(0,0,0,0.1);'', nl, ''    padding: 1.5rem;'', nl,
       ''    margin: 1rem 0;'', nl, ''  }'', nl, ''  '', nl,
       ''  @media (prefers-color-scheme: dark) {'', nl, ''    .card {'', nl,
       ''      background: #1f2937;'', nl, ''    }'', nl, ''  }'', nl, ''  '', nl,
       ''  .table {'', nl, ''    width: 100%;'', nl, ''    border-collapse: collapse;'', nl,
       ''    margin: 1rem 0;'', nl, ''  }'', nl, ''  '', nl, ''  .table th,'', nl,
       ''  .table td {'', nl, ''    padding: 0.75rem;'', nl, ''    text-align: left;'', nl,
       ''    border-bottom: 1px solid #e5e7eb;'', nl, ''  }'', nl, ''  '', nl,
       ''  @media (prefers-color-scheme: dark) {'', nl, ''    .table th,'', nl,
       ''    .table td {'', nl, ''      border-color: #374151;'', nl, ''    }'', nl, ''  }'',
       nl, ''  '', nl, ''  .badge {'', nl, ''    display: inline-block;'', nl,
       ''    padding: 0.25rem 0.5rem;'', nl, ''    border-radius: 9999px;'', nl,
       ''    font-size: 0.875rem;'', nl, ''    font-weight: 500;'', nl, ''  }'', nl, ''  '',
       nl, ''  .badge-high { background: #fee2e2; color: #dc2626; }'', nl,
       ''  .badge-medium { background: #fef3c7; color: #d97706; }'', nl,
       ''  .badge-low { background: #ecfdf5; color: #059669; }'', nl, ''  '', nl,
       ''  @media (prefers-color-scheme: dark) {'', nl,
       ''    .badge-high { background: #7f1d1d; color: #fca5a5; }'', nl,
       ''    .badge-medium { background: #78350f; color: #fcd34d; }'', nl,
       ''    .badge-low { background: #064e3b; color: #6ee7b7; }'', nl, ''  }'', nl, ''  '',
       nl, ''  .changes {'', nl, ''    display: grid;'', nl,
       ''    grid-template-columns: 1fr 1fr;'', nl, ''    gap: 1rem;'', nl,
       ''    padding: 0.75rem;'', nl, ''    background: #f9fafb;'', nl,
       ''    border-radius: 0.375rem;'', nl, ''    margin: 0.5rem 0;'', nl, ''  }'', nl,
       ''  '', nl, ''  @media (prefers-color-scheme: dark) {'', nl, ''    .changes {'', nl,
       ''      background: #374151;'', nl, ''    }'', nl, ''  }'', nl, ''  '', nl,
       ''  .changed-value {'', nl, ''    color: var(--primary);'', nl,
       ''    font-weight: 500;'', nl, ''  }'', nl, ''  '', nl, ''  details summary {'', nl,
       ''    cursor: pointer;'', nl, ''    padding: 1rem;'', nl,
       ''    background: #f3f4f6;'', nl, ''    border-radius: 0.375rem;'', nl, ''  }'', nl,
       ''  '', nl, ''  @media (prefers-color-scheme: dark) {'', nl,
       ''    details summary {'', nl, ''      background: #1f2937;'', nl, ''    }'', nl,
       ''  }'', nl, ''</style>'']"

text \<open>
  One row of \<^verbatim>\<open>formatChangesTable\<close>: the callback of \<^verbatim>\<open>map\<close>.
\<close>

definition formatChangesTable_row :: "string \<times> FieldChange \<Rightarrow> js_error + string" where
  "formatChangesTable_row entry =
     (case entry of (field, change) \<Rightarrow>
        (case htmlEscape_arg (stringify_pretty (change_from change)) of
           Inl e \<Rightarrow> Inl e
         | Inr from_text \<Rightarrow>
             (case htmlEscape_arg (stringify_pretty (change_to change)) of
                Inl e \<Rightarrow> Inl e
              | Inr to_text \<Rightarrow>
                  Inr (concat
                       [nl, ''      <tr>'', nl, ''        <td>'', htmlEscape field,
                        ''</td>'', nl, ''        <td><pre>'', from_text, ''</pre></td>'', nl,
                        ''        <td><pre>'', to_text, ''</pre></td>'', nl, ''      </tr>'',
                        nl, ''    '']))))"

definition formatChangesTable :: "StateChanges \<Rightarrow> js_error + string" where
  "formatChangesTable chg =
     (case map_result formatChangesTable_row chg of
        Inl e \<Rightarrow> Inl e
      | Inr rows \<Rightarrow>
          Inr (concat
               [nl, ''    <table class='', dq, ''table'', dq, ''>'', nl, ''      <thead>'',
                nl, ''        <tr>'', nl, ''          <th>Field</th>'', nl,
                ''          <th>Previous Value</th>'', nl, ''          <th>New Value</th>'',
                nl, ''        </tr>'', nl, ''      </thead>'', nl, ''      <tbody>'', nl,
                ''        '', concat rows, nl, ''      </tbody>'', nl, ''    </table>'', nl,
                ''  '']))"

text \<open>
  The two conditional parts of \<^verbatim>\<open>formatSnapshotSection\<close>:
  \<^verbatim>\<open>changes && Object.keys(changes).length > 0 ? ... : ''\<close> and
  \<^verbatim>\<open>snapshot.metadata ? ... : ''\<close>.
\<close>

definition section_changes :: "StateChanges option \<Rightarrow> js_error + string" where
  "section_changes chg =
     (case chg of
        None \<Rightarrow> Inr []
      | Some c \<Rightarrow>
          if length c > 0
          then (case formatChangesTable c of
                  Inl e \<Rightarrow> Inl e
                | Inr table \<Rightarrow>
                    Inr (concat
                         [nl, ''        <div style='', dq, ''margin-top: 1rem;'', dq, ''>'',
                          nl, ''          <h4>Changes</h4>'', nl, ''          '', table, nl,
                          ''        </div>'', nl, ''      '']))
          else Inr [])"

definition section_metadata :: "jsval option \<Rightarrow> js_error + string" where
  "section_metadata md =
     (case md of
        None \<Rightarrow> Inr []
      | Some v \<Rightarrow>
          if truthy v
          then (case htmlEscape_arg (stringify_pretty v) of
                  Inl e \<Rightarrow> Inl e
                | Inr md_text \<Rightarrow>
                    Inr (concat
                         [nl, ''        <div style='', dq, ''margin-top: 1rem;'', dq, ''>'',
                          nl, ''          <h4>Metadata</h4>'', nl, ''          <pre style='',
                          dq,
                          ''background: #f3f4f6; padding: 1rem; border-radius: 0.375rem;'',
                          dq, ''>'', nl, md_text, nl, ''          </pre>'', nl,
                          ''        </div>'', nl, ''      '']))
          else Inr [])"

definition formatSnapshotSection ::
  "FormatEnv \<Rightarrow> ('s, jsval) ProcessedSnapshot \<Rightarrow> js_error + string" where
  "formatSnapshotSection env p =
     (case toISOString env (timestamp (snapshot p)) of
        Inl e \<Rightarrow> Inl e
      | Inr iso_text \<Rightarrow>
          (case section_changes (changes p) of
             Inl e \<Rightarrow> Inl e
           | Inr changes_block \<Rightarrow>
               (case section_metadata (metadata (snapshot p)) of
                  Inl e \<Rightarrow> Inl e
                | Inr metadata_block \<Rightarrow>
                    Inr (concat
                         [nl, ''    <div class='', dq, ''card'', dq, ''>'', nl,
                          ''      <div style='', dq,
                          ''display: flex; justify-content: space-between; align-items: '',
                          ''center;'', dq, ''>'', nl, ''        <h3 style='', dq,
                          ''margin: 0;'', dq, ''>'', nl, ''          Version '',
                          htmlEscape (version (snapshot p)), nl, ''          <span class='',
                          dq, ''badge badge-'', importance_text (importance p), dq, ''>'',
                          nl, ''            '', capitalize (importance_text (importance p)),
                          nl, ''          </span>'', nl, ''        </h3>'', nl,
                          ''        <time datetime='', dq, iso_text, dq, ''>'', nl,
                          ''          '', toLocaleString env (timestamp (snapshot p)), nl,
                          ''        </time>'', nl, ''      </div>'', nl, ''      '', nl,
                          ''      '', changes_block, nl, ''      '', nl, ''      '',
                          metadata_block, nl, ''    </div>'', nl, ''  '']))))"

text \<open>
  The three conditional parts of \<^verbatim>\<open>formatHtmlReport\<close>, one for each group of
  \<^verbatim>\<open>importanceGroups\<close>, on the sections of the group already formatted.
\<close>

definition html_high_group :: "string list \<Rightarrow> string" where
  "html_high_group sections =
     (if length sections > 0
      then concat
            [nl, ''    <h3>'', [CHR 0xC3, CHR 0xB0], [CHR 0xC5, CHR 0xB8],
             [CHR 0xE2, CHR 0x80, CHR 0x9D], [CHR 0xC2, CHR 0xB4],
             '' High Importance Changes</h3>'', nl, ''    '', join nl sections, nl, ''  '']
      else [])"

definition html_medium_group :: "string list \<Rightarrow> string" where
  "html_medium_group sections =
     (if length sections > 0
      then concat
            [nl, ''    <h3>'', [CHR 0xC3, CHR 0xB0], [CHR 0xC5, CHR 0xB8],
             [CHR 0xC5, CHR 0xB8], [CHR 0xC2, CHR 0xA1], '' Medium Importance Changes</h3>'',
             nl, ''    '', join nl sections, nl, ''  '']
      else [])"

definition html_low_group :: "string list \<Rightarrow> string" where
  "html_low_group sections =
     (if length sections > 0
      then concat
            [nl, ''    <h3>'', [CHR 0xC3, CHR 0xB0], [CHR 0xC5, CHR 0xB8],
             [CHR 0xC5, CHR 0xB8], [CHR 0xC2, CHR 0xA2], '' Low Importance Changes</h3>'',
             nl, ''    <details>'', nl,
             ''      <summary>Show low importance changes</summary>'', nl, ''      '',
             join nl sections, nl, ''    </details>'', nl, ''  '']
      else [])"

text \<open>
  The template of \<^verbatim>\<open>formatHtmlReport\<close> in three parts: the head of the document up
  to the summary card, the summary card, and the rest with the three groups.
\<close>

definition html_head :: string where
  "html_head =
     concat
      [nl, ''<!DOCTYPE html>'', nl, ''<html lang='', dq, ''en'', dq, ''>'', nl, ''<head>'',
       nl, ''  <meta charset='', dq, ''UTF-8'', dq, ''>'', nl, ''  <meta name='', dq,
       ''viewport'', dq, '' content='', dq, ''width=device-width, initial-scale=1.0'', dq,
       ''>'', nl, ''  <title>Form Snapshot Report</title>'', nl, ''  '', css, nl,
       ''</head>'', nl, ''<body>'', nl, ''  <h1>Form Snapshot Report</h1>'', nl, ''  '', nl,
       ''  '']"

definition html_summary :: "FormatEnv \<Rightarrow> ReportSummary \<Rightarrow> string" where
  "html_summary env s =
     concat
      [''<div class='', dq, ''card'', dq, ''>'', nl, ''    <h2>Summary</h2>'', nl,
       ''    <table class='', dq, ''table'', dq, ''>'', nl, ''      <tbody>'', nl,
       ''        <tr>'', nl, ''          <th>Total Snapshots</th>'', nl, ''          <td>'',
       show_nat (totalSnapshots s), ''</td>'', nl, ''        </tr>'', nl, ''        <tr>'',
       nl, ''          <th>Date Range</th>'', nl, ''          <td>'', nl, ''            '',
       toLocaleDateString env (dateRange_from s), '' - '', nl, ''            '',
       toLocaleDateString env (dateRange_to s), nl, ''          </td>'', nl,
       ''        </tr>'', nl, ''        <tr>'', nl, ''          <th>Versions</th>'', nl,
       ''          <td>'', join '', '' (versions s), ''</td>'', nl, ''        </tr>'', nl,
       ''        <tr>'', nl, ''          <th>Total Changes</th>'', nl, ''          <td>'',
       show_nat (totalChanges s), ''</td>'', nl, ''        </tr>'', nl, ''        <tr>'', nl,
       ''          <th>Important Changes</th>'', nl, ''          <td>'',
       show_nat (importantChanges s), ''</td>'', nl, ''        </tr>'', nl,
       ''      </tbody>'', nl, ''    </table>'', nl, ''  </div>'']"

definition html_groups :: "string list \<Rightarrow> string list \<Rightarrow> string list \<Rightarrow> string" where
  "html_groups high medium low =
     concat
      [nl, nl, ''  <h2>Snapshots</h2>'', nl, ''  '', nl, ''  '', html_high_group high, nl,
       ''  '', nl, ''  '', html_medium_group medium, nl, ''  '', nl, ''  '',
       html_low_group low, nl, ''</body>'', nl, ''</html>'']"

definition formatHtmlReport ::
  "FormatEnv \<Rightarrow> ('s, jsval) SnapshotReport \<Rightarrow> js_error + string" where
  "formatHtmlReport env report =
     (case map_result (formatSnapshotSection env)
             (filter (\<lambda>s. importance s = High) (snapshots report)) of
        Inl e \<Rightarrow> Inl e
      | Inr high \<Rightarrow>
          (case map_result (formatSnapshotSection env)
                  (filter (\<lambda>s. importance s = Medium) (snapshots report)) of
             Inl e \<Rightarrow> Inl e
           | Inr medium \<Rightarrow>
               (case map_result (formatSnapshotSection env)
                       (filter (\<lambda>s. importance s = Low) (snapshots report)) of
                  Inl e \<Rightarrow> Inl e
                | Inr low \<Rightarrow>
                    Inr (html_head @ html_summary env (summary report)
                           @ html_groups high medium low))))"

text \<open>
  The Markdown formatter. \<^verbatim>\<open>mdEscape\<close> puts a backslash before each of the five
  characters of the class \<^verbatim>\<open>[*_`[\]]\<close>.
\<close>

definition mdEscape :: "string \<Rightarrow> string" where
  "mdEscape text =
     concat (map (\<lambda>x. if x \<in> set [CHR ''*'', CHR ''_'', CHR 0x60, CHR ''['', CHR '']'']
                       then [CHR 0x5C, x] else [x]) text)"

definition mdEscape_arg :: "string option \<Rightarrow> js_error + string" where
  "mdEscape_arg t =
     (case t of
        None \<Rightarrow> Inl (JsError ''TypeError'')
      | Some text \<Rightarrow> Inr (mdEscape text))"

definition mdTable :: "string list \<Rightarrow> string list list \<Rightarrow> string" where
  "mdTable headers rows =
     (let headerRow = ''| '' @ join '' | '' headers @ '' |'';
          separatorRow = ''| '' @ join '' | '' (map (\<lambda>h. ''---'') headers) @ '' |'';
          dataRows = map (\<lambda>row. ''| '' @ join '' | '' row @ '' |'') rows
      in join nl ([headerRow, separatorRow] @ dataRows))"

definition mdDetails :: "string \<Rightarrow> string \<Rightarrow> string" where
  "mdDetails summary_text content =
     concat [''<details>'', nl, ''<summary>'', summary_text, ''</summary>'', nl, nl,
             content, nl, ''</details>'']"

definition mdCodeBlock :: "string \<Rightarrow> string \<Rightarrow> string" where
  "mdCodeBlock content language =
     concat [[CHR 0x60, CHR 0x60, CHR 0x60], language, nl, content, nl,
             [CHR 0x60, CHR 0x60, CHR 0x60]]"

definition formatChangesAsTable_row :: "string \<times> FieldChange \<Rightarrow> js_error + string list" where
  "formatChangesAsTable_row entry =
     (case entry of (field, change) \<Rightarrow>
        (case mdEscape_arg (stringify (change_from change)) of
           Inl e \<Rightarrow> Inl e
         | Inr from_text \<Rightarrow>
             (case mdEscape_arg (stringify (change_to change)) of
                Inl e \<Rightarrow> Inl e
              | Inr to_text \<Rightarrow> Inr [mdEscape field, from_text, to_text])))"

definition formatChangesAsTable :: "StateChanges \<Rightarrow> js_error + string" where
  "formatChangesAsTable chg =
     (case map_result formatChangesAsTable_row chg of
        Inl e \<Rightarrow> Inl e
      | Inr rows \<Rightarrow> Inr (mdTable [''Field'', ''Previous Value'', ''New Value''] rows))"

text \<open>
  \<^verbatim>\<open>addSnapshotSection\<close>: the lines it pushes. The metadata goes into the code block
  as \<^verbatim>\<open>JSON.stringify\<close> wrote it.
\<close>

definition addSnapshotSection ::
  "FormatEnv \<Rightarrow> ('s, jsval) ProcessedSnapshot \<Rightarrow> string list \<Rightarrow> js_error + string list" where
  "addSnapshotSection env p lines =
     (let lines1 = lines @ [''#### Version '' @ mdEscape (version (snapshot p)), [],
                            ''*'' @ toLocaleString env (timestamp (snapshot p)) @ ''*'', []]
      in case (case changes p of
                 None \<Rightarrow> Inr lines1
               | Some c \<Rightarrow>
                   if length c > 0
                   then (case formatChangesAsTable c of
                           Inl e \<Rightarrow> Inl e
                         | Inr table \<Rightarrow> Inr (lines1 @ [''Changes:'', [], table, []]))
                   else Inr lines1) of
           Inl e \<Rightarrow> Inl e
         | Inr lines2 \<Rightarrow>
             (let lines3 =
                    (case metadata (snapshot p) of
                       None \<Rightarrow> lines2
                     | Some v \<Rightarrow>
                         if truthy v
                         then lines2 @ [''Metadata:'', [],
                                mdCodeBlock (case stringify_pretty v of
                                               None \<Rightarrow> ''undefined''
                                             | Some t \<Rightarrow> t) ''json'',
                                []]
                         else lines2)
              in Inr (lines3 @ [''---'', []])))"

text \<open>\<^verbatim>\<open>group.forEach(s => addSnapshotSection(s, lines))\<close>.\<close>

fun add_sections ::
  "FormatEnv \<Rightarrow> ('s, jsval) ProcessedSnapshot list \<Rightarrow> string list \<Rightarrow> js_error + string list" where
  "add_sections env [] lines = Inr lines"
| "add_sections env (p # ps) lines =
     (case addSnapshotSection env p lines of
        Inl e \<Rightarrow> Inl e
      | Inr lines' \<Rightarrow> add_sections env ps lines')"

definition formatMarkdownReport ::
  "FormatEnv \<Rightarrow> ('s, jsval) SnapshotReport \<Rightarrow> js_error + string" where
  "formatMarkdownReport env report =
     (let lines0 =
            [''# Form Snapshot Report'', [], ''## Summary'', [],
             mdTable [''Metric'', ''Value'']
               [[''Total Snapshots'', show_nat (totalSnapshots (summary report))],
                [''Date Range'',
                 toLocaleDateString env (dateRange_from (summary report)) @ '' - ''
                   @ toLocaleDateString env (dateRange_to (summary report))],
                [''Versions'', join '', '' (versions (summary report))],
                [''Total Changes'', show_nat (totalChanges (summary report))],
                [''Important Changes'', show_nat (importantChanges (summary report))]],
             [], ''## Snapshots'', []];
          high = filter (\<lambda>s. importance s = High) (snapshots report);
          medium = filter (\<lambda>s. importance s = Medium) (snapshots report);
          low = filter (\<lambda>s. importance s = Low) (snapshots report)
      in case (if length high > 0
               then add_sections env high
                      (lines0 @ [''### '' @ [CHR 0xF0, CHR 0x9F, CHR 0x94, CHR 0xB4]
                                   @ '' High Importance Changes'', []])
               else Inr lines0) of
           Inl e \<Rightarrow> Inl e
         | Inr lines1 \<Rightarrow>
             (case (if length medium > 0
                    then add_sections env medium
                           (lines1 @ [''### '' @ [CHR 0xF0, CHR 0x9F, CHR 0x9F, CHR 0xA1]
                                        @ '' Medium Importance Changes'', []])
                    else Inr lines1) of
                Inl e \<Rightarrow> Inl e
              | Inr lines2 \<Rightarrow>
                  (if length low > 0
                   then (case add_sections env low [] of
                           Inl e \<Rightarrow> Inl e
                         | Inr lowImportanceLines \<Rightarrow>
                             Inr (join nl
                                    (lines2
                                     @ [''### '' @ [CHR 0xF0, CHR 0x9F, CHR 0x9F, CHR 0xA2]
                                          @ '' Low Importance Changes'', [],
                                        mdDetails ''Show low importance changes''
                                          (join nl lowImportanceLines)])))
                   else Inr (join nl lines2))))"

section \<open>Example environments and data\<close>

text \<open>
  A storage in memory, and \<^verbatim>\<open>JSON\<close> on the finitely many snapshot lists of a table:
  the text \<^verbatim>\<open>null\<close> parses to \<^verbatim>\<open>null\<close>, and any other text that is not in the
  table does not parse.
\<close>

type_synonym memory = "(string \<times> string) list"

definition memory_getItem :: "memory \<Rightarrow> string \<Rightarrow> js_error + string option" where
  "memory_getItem st k = Inr (map_of st k)"

definition memory_setItem :: "memory \<Rightarrow> string \<Rightarrow> string \<Rightarrow> js_error + memory" where
  "memory_setItem st k d = Inr (AList.update k d st)"

definition memory_removeItem :: "memory \<Rightarrow> string \<Rightarrow> js_error + memory" where
  "memory_removeItem st k = Inr (AList.delete k st)"

definition table_stringify :: "(string \<times> 'a list) list \<Rightarrow> 'a list \<Rightarrow> js_error + string" where
  "table_stringify table xs =
     (case find (\<lambda>(t, ys). ys = xs) table of
        None \<Rightarrow> Inl (JsError ''TypeError'')
      | Some (t, ys) \<Rightarrow> Inr t)"

definition table_parse :: "(string \<times> 'a list) list \<Rightarrow> string \<Rightarrow> js_error + 'a parsed" where
  "table_parse table t =
     (if t = ''null'' then Inr ParsedOther
      else (case map_of table t of
              None \<Rightarrow> Inl (JsError ''SyntaxError'')
            | Some xs \<Rightarrow> Inr (ParsedArray xs)))"

definition memory_env :: "(string \<times> 'a list) list \<Rightarrow> (memory, 'a) Env" where
  "memory_env table =
     \<lparr> getItem = memory_getItem, setItem = memory_setItem, removeItem = memory_removeItem,
       JSON_stringify = table_stringify table, JSON_parse = table_parse table,
       btoa = Inr, atob = Inr, encodeURIComponent = Inr, decodeURIComponent = Inr \<rparr>"

text \<open>The same, with a storage that is full: every \<^verbatim>\<open>setItem\<close> throws.\<close>

definition full_env :: "(string \<times> 'a list) list \<Rightarrow> (memory, 'a) Env" where
  "full_env table =
     (memory_env table)\<lparr> setItem := (\<lambda>st k d. Inl (JsError ''QuotaExceededError'')) \<rparr>"

definition login_snapshot :: "string \<Rightarrow> int \<Rightarrow> (state, SnapshotMetadata) FormSnapshot" where
  "login_snapshot i t =
     \<lparr> id' = i, timestamp = t, state = [(''email'', JStr i)], version = ''1.0'',
       metadata = None \<rparr>"

definition login_auto_snapshot :: "(state, SnapshotMetadata) FormSnapshot" where
  "login_auto_snapshot =
     \<lparr> id' = ''d'', timestamp = 4, state = [(''email'', JStr ''d'')], version = ''1.0'',
       metadata = Some \<lparr> auto = Some True,
                         meta_changes = Some [(''email'', FieldChange (JStr ''c'') (JStr ''d''))],
                         meta_rest = [] \<rparr> \<rparr>"

definition login_table :: "(string \<times> (state, SnapshotMetadata) FormSnapshot list) list" where
  "login_table =
     [(''[a,b,c]'', [login_snapshot ''a'' 1, login_snapshot ''b'' 2, login_snapshot ''c'' 3]),
      (''[b,c,d]'', [login_snapshot ''b'' 2, login_snapshot ''c'' 3, login_snapshot ''d'' 4]),
      (''[b,c,auto d]'', [login_snapshot ''b'' 2, login_snapshot ''c'' 3, login_auto_snapshot]),
      (''[d]'', [login_snapshot ''d'' 4]),
      (''[]'', [])]"

definition login_manager :: FormSnapshotManager where
  "login_manager =
     new_manager ''login''
       \<lparr> opt_maxSnapshots = Some 3, opt_autoCleanup = None,
         opt_compressionEnabled = None, opt_namespace = None \<rparr>"

definition login_world :: "memory World" where
  "login_world = \<lparr> store = [(''form_snapshots_login'', ''[a,b,c]'')], console = [] \<rparr>"

definition corrupt_world :: "memory World" where
  "corrupt_world = \<lparr> store = [(''form_snapshots_login'', ''[{'')], console = [] \<rparr>"

definition null_world :: "memory World" where
  "null_world = \<lparr> store = [(''form_snapshots_login'', ''null'')], console = [] \<rparr>"

text \<open>A manager that keeps no snapshot: \<^verbatim>\<open>maxSnapshots\<close> is negative.\<close>

definition empty_manager :: FormSnapshotManager where
  "empty_manager =
     new_manager ''login''
       \<lparr> opt_maxSnapshots = Some (- 1), opt_autoCleanup = None,
         opt_compressionEnabled = None, opt_namespace = None \<rparr>"

definition login_config :: SnapshotFormConfig where
  "login_config =
     [(''email'', \<lparr> ftype = Some ''email'', label = None, important = Some True,
                    required = None \<rparr>)]"

text \<open>Two migrations; the second one throws on the way up.\<close>

definition rename_key :: "string \<Rightarrow> string \<Rightarrow> state \<Rightarrow> state" where
  "rename_key old new s = map (\<lambda>(k, v). (if k = old then new else k, v)) s"

definition rename_migration :: "state Migration" where
  "rename_migration =
     \<lparr> mig_version = ''1.1.0'', description = ''Rename mail to email'',
       up = (\<lambda>s. Inr (rename_key ''mail'' ''email'' s)),
       down = (\<lambda>s. Inr (rename_key ''email'' ''mail'' s)) \<rparr>"

definition broken_migration :: "state Migration" where
  "broken_migration =
     \<lparr> mig_version = ''2.0.0'', description = ''Split name'',
       up = (\<lambda>s. Inl (JsError ''TypeError: name is undefined'')),
       down = (\<lambda>s. Inr s) \<rparr>"

definition example_migrations :: "state Migration list" where
  "example_migrations = addMigration (addMigration [] broken_migration) rename_migration"

definition old_snapshot :: "(state, MigrationMetadata) FormSnapshot" where
  "old_snapshot =
     \<lparr> id' = ''s1'', timestamp = 5, state = [(''mail'', JStr ''a@b.c'')],
       version = ''1.0.0'', metadata = None \<rparr>"

definition renamed_snapshot :: "(state, MigrationMetadata) FormSnapshot" where
  "renamed_snapshot =
     \<lparr> id' = ''s1'', timestamp = 5, state = [(''email'', JStr ''a@b.c'')],
       version = ''1.1.0'',
       metadata = Some \<lparr> meta_migrations =
                           Some [\<lparr> entry_version = ''1.1.0'', entry_direction = Up,
                                   entry_timestamp = 100,
                                   entry_description = ''Rename mail to email'' \<rparr>],
                         other_keys = [] \<rparr> \<rparr>"

text \<open>The two snapshots and the configuration of the scenarios of the differ and validator.\<close>

definition ab_snapshot :: "(state, unit) FormSnapshot" where
  "ab_snapshot =
     \<lparr> id' = ''1'', timestamp = 1, state = [(''a'', JNum 1), (''b'', JNum 2)],
       version = ''1.0'', metadata = None \<rparr>"

definition ac_snapshot :: "(state, unit) FormSnapshot" where
  "ac_snapshot =
     \<lparr> id' = ''2'', timestamp = 2, state = [(''a'', JNum 1), (''c'', JNum 3)],
       version = ''1.0'', metadata = None \<rparr>"

definition age_snapshot :: "(jsval, jsval) FormSnapshot" where
  "age_snapshot =
     \<lparr> id' = ''1'', timestamp = 1, state = JObj 1 [(''age'', JNum (- 1))],
       version = ''1.0'', metadata = None \<rparr>"

text \<open>
  The same state as \<^verbatim>\<open>JSON.parse\<close> gives it with a name, and an array in the place of
  the state.
\<close>

definition named_snapshot :: "(jsval, jsval) FormSnapshot" where
  "named_snapshot =
     \<lparr> id' = ''2'', timestamp = 2,
       state = JObj 2 [(''age'', JNum 30), (''name'', JStr ''Ada'')],
       version = ''1.0'', metadata = Some (JObj 3 []) \<rparr>"

definition array_snapshot :: "(jsval, jsval) FormSnapshot" where
  "array_snapshot =
     \<lparr> id' = ''3'', timestamp = 3, state = JArr 4 [JNum 30],
       version = ''1.0'', metadata = Some (JStr ''m'') \<rparr>"

text \<open>
  An engine as far as the examples call it: an array inherits \<^verbatim>\<open>push\<close> and the
  methods of \<^verbatim>\<open>Object.prototype\<close>, a string has a length.
\<close>

definition sample_engine :: Engine where
  "sample_engine =
     \<lparr> array_inherited =
         (\<lambda>k. if k = ''push'' \<or> k \<in> set Object_prototype_methods then JFunction k
              else JUndefined),
       boxed_get =
         (\<lambda>v k. case v of
                  JStr t \<Rightarrow> if k = ''length'' then JNum (int (length t)) else JUndefined
                | _ \<Rightarrow> JUndefined) \<rparr>"

definition age_config :: SnapshotFormConfig where
  "age_config =
     [(''age'', \<lparr> ftype = Some ''number'', label = None, important = None,
                  required = Some True \<rparr>),
      (''name'', \<lparr> ftype = Some ''string'', label = None, important = None,
                   required = Some True \<rparr>)]"

text \<open>
  A configuration with a field named \<^verbatim>\<open>0\<close> that must be a string and a field named
  \<^verbatim>\<open>push\<close> that must be a number.
\<close>

definition index_config :: SnapshotFormConfig where
  "index_config =
     [(''0'', \<lparr> ftype = Some ''string'', label = None, important = None,
                required = Some True \<rparr>),
      (''push'', \<lparr> ftype = Some ''number'', label = None, important = None,
                   required = None \<rparr>)]"

text \<open>
  Two states as \<^verbatim>\<open>JSON.parse\<close> gives them for the texts \<^verbatim>\<open>{"x":1}\<close> and
  \<^verbatim>\<open>{"x":1,"__proto__":n}\<close>: the second has an own property \<^verbatim>\<open>__proto__\<close>.
\<close>

definition plain_snapshot :: "(state, unit) FormSnapshot" where
  "plain_snapshot =
     \<lparr> id' = ''1'', timestamp = 1, state = [(''x'', JNum 1)],
       version = ''1.0'', metadata = None \<rparr>"

definition proto_snapshot :: "int \<Rightarrow> (state, unit) FormSnapshot" where
  "proto_snapshot n =
     \<lparr> id' = ''2'', timestamp = 2, state = [(''x'', JNum 1), (''__proto__'', JNum n)],
       version = ''1.0'', metadata = None \<rparr>"

text \<open>Report data: no filter, and four snapshots with 3, 4 and 1 changed fields.\<close>

definition no_filters :: ReportFilters where
  "no_filters =
     \<lparr> fromDate = None, toDate = None, filter_versions = None, filter_fields = None,
       onlyImportant = None \<rparr>"





text \<open>A filter that keeps the snapshots up to the time 2.\<close>

definition until_two :: ReportFilters where
  "until_two =
     \<lparr> fromDate = None, toDate = Some 2, filter_versions = None, filter_fields = None,
       onlyImportant = None \<rparr>"

text \<open>
  Two states with the same content in different array objects, as two snapshots read back
  from the storage have them, and two states that differ in a field that is not configured.
\<close>

definition tags_snapshot :: "int \<Rightarrow> ref \<Rightarrow> (state, jsval) FormSnapshot" where
  "tags_snapshot t r =
     \<lparr> id' = show_int t, timestamp = t, state = [(''tags'', JArr r [JStr ''a''])],
       version = ''1.0'', metadata = None \<rparr>"

definition tags_config :: SnapshotFormConfig where
  "tags_config =
     [(''tags'', \<lparr> ftype = Some ''array'', label = None, important = Some True,
                   required = None \<rparr>)]"

definition note_snapshot :: "int \<Rightarrow> string \<Rightarrow> (state, jsval) FormSnapshot" where
  "note_snapshot t body =
     \<lparr> id' = show_int t, timestamp = t,
       state = [(''email'', JStr ''x''), (''note'', JStr body)],
       version = ''1.0'', metadata = None \<rparr>"

text \<open>A snapshot whose version holds markup, its report, and a rendering of dates.\<close>

definition markup_snapshot :: "(state, jsval) FormSnapshot" where
  "markup_snapshot =
     \<lparr> id' = ''s1'', timestamp = 86400000, state = [(''name'', JStr ''Ada'')],
       version = ''<b>*1.0*</b>'', metadata = None \<rparr>"

definition markup_report :: "(state, jsval) SnapshotReport" where
  "markup_report = generateReport [markup_snapshot] [] no_filters 86400000"

definition fixed_dates :: FormatEnv where
  "fixed_dates =
     \<lparr> toISOString = (\<lambda>t. Inr ''1970-01-02T00:00:00.000Z''),
       toLocaleString = (\<lambda>t. ''1/2/1970, 12:00:00 AM''),
       toLocaleDateString = (\<lambda>t. ''1/2/1970'') \<rparr>"

text \<open>The changes of a processed snapshot, none when the key is \<^verbatim>\<open>undefined\<close>.\<close>

definition changes_of :: "('s, 'm) ProcessedSnapshot \<Rightarrow> StateChanges" where
  "changes_of p = (case changes p of None \<Rightarrow> [] | Some c \<Rightarrow> c)"


section \<open>Invariants of the loops\<close>

text \<open>
  The second loop of \<^verbatim>\<open>compareSnapshots\<close> after the keys \<open>ks\<close>, started on
  \<open>r\<close>, \<open>m\<close>, \<open>u\<close> and ended on \<open>r'\<close>, \<open>m'\<close>, \<open>u'\<close>: the key
  \<^verbatim>\<open>__proto__\<close> reaches \<open>u'\<close> only.
\<close>

definition diff_inv ::
  "string list \<Rightarrow> state \<Rightarrow> state \<Rightarrow> string list \<Rightarrow> state \<Rightarrow> StateChanges \<Rightarrow> string list
     \<Rightarrow> state \<Rightarrow> StateChanges \<Rightarrow> string list \<Rightarrow> bool" where
  "diff_inv keys2 s1 s2 ks r m u r' m' u' \<longleftrightarrow>
     fst ` set r' = fst ` set r \<union> {k \<in> set ks. k \<noteq> ''__proto__'' \<and> k \<notin> set keys2}
   \<and> fst ` set m' = fst ` set m
         \<union> {k \<in> set ks. k \<noteq> ''__proto__'' \<and> k \<in> set keys2
                \<and> stringify (get_field s1 k) \<noteq> stringify (get_field s2 k)}
   \<and> set u' = set u
         \<union> {k \<in> set ks. k \<in> set keys2
                \<and> stringify (get_field s1 k) = stringify (get_field s2 k)}
   \<and> (distinct (map fst r) \<longrightarrow> distinct (map fst r'))
   \<and> (distinct (map fst m) \<longrightarrow> distinct (map fst m'))
   \<and> (distinct ks \<and> distinct u \<and> set ks \<inter> set u = {} \<longrightarrow> distinct u')"

text \<open>The comparison of \<^verbatim>\<open>generateReport\<close> on one field.\<close>

definition differs :: "state \<Rightarrow> state \<Rightarrow> string \<Rightarrow> bool" where
  "differs cur prev k \<longleftrightarrow> stringify (get_field cur k) \<noteq> stringify (get_field prev k)"

text \<open>
  The loop of \<^verbatim>\<open>generateReport\<close> over the keys \<open>ks\<close> of a state, started on
  \<open>chg0\<close>, \<open>n0\<close> and ended on \<open>chg\<close>, \<open>n\<close>.
\<close>

definition report_inv ::
  "SnapshotFormConfig \<Rightarrow> string list option \<Rightarrow> state \<Rightarrow> state \<Rightarrow> string list
     \<Rightarrow> StateChanges \<Rightarrow> nat \<Rightarrow> StateChanges \<Rightarrow> nat \<Rightarrow> bool" where
  "report_inv config flds cur prev ks chg0 n0 chg n \<longleftrightarrow>
     (\<forall>k. map_of chg k =
        (if k \<in> set ks \<and> k \<noteq> ''__proto__'' \<and> field_selected flds k
            \<and> differs cur prev k
         then Some (FieldChange (get_field prev k) (get_field cur k))
         else map_of chg0 k))
   \<and> (distinct (map fst chg0) \<longrightarrow> distinct (map fst chg))
   \<and> (n > 0 \<longleftrightarrow> n0 > 0 \<or> (\<exists>k \<in> set ks. field_selected flds k \<and> differs cur prev k
                               \<and> config_important config k))"

text \<open>
  The \<open>j\<close>-th numeric segment of a version string as \<^verbatim>\<open>compareVersions\<close> reads it
  (0 when the string has no such segment), and the number of its segments.
\<close>

definition segment :: "string \<Rightarrow> nat \<Rightarrow> int" where
  "segment v j = part_at (map Number (split_on CHR ''.'' v)) j"

definition segments :: "string \<Rightarrow> nat" where
  "segments v = length (split_on CHR ''.'' v)"

text \<open>Three snapshots taken in the order of the versions 2.0.0, 1.10.0, 1.2.0.\<close>

definition versioned_snapshot :: "int \<Rightarrow> string \<Rightarrow> (state, jsval) FormSnapshot" where
  "versioned_snapshot t v =
     \<lparr> id' = show_int t, timestamp = t, state = [], version = v, metadata = None \<rparr>"

definition versioned_snapshots :: "(state, jsval) FormSnapshot list" where
  "versioned_snapshots =
     [versioned_snapshot 1 ''2.0.0'', versioned_snapshot 2 ''1.10.0'',
      versioned_snapshot 3 ''1.2.0'', versioned_snapshot 4 ''1.10.0'']"

section \<open>The snapshot store: version, eviction, failures\<close>

lemma createSnapshot_returns:
  "fst (createSnapshot env m uuid now st md w) = Inr s \<Longrightarrow>
   s = \<lparr> id' = uuid, timestamp = now, state = st, version = ''1.0'', metadata = md \<rparr>"
  by (auto simp: createSnapshot_def Let_def split: prod.splits sum.splits parsed.splits)

lemma createAutoSnapshot_returns:
  "fst (createAutoSnapshot env m uuid now formConfig cur prev w) = Inr (Some s) \<Longrightarrow>
   fst (createSnapshot env m uuid now cur
          (Some \<lparr> auto = Some True, meta_changes = Some (autoChanges formConfig cur prev),
                  meta_rest = [] \<rparr>) w) = Inr s"
  by (auto simp: createAutoSnapshot_def split: if_splits prod.splits sum.splits)

lemma login_read:
  "getSnapshots (memory_env login_table) login_manager login_world =
     (ParsedArray [login_snapshot ''a'' 1, login_snapshot ''b'' 2, login_snapshot ''c'' 3],
      login_world)"
  by (simp add: getSnapshots_def getSnapshots_try_def memory_env_def login_manager_def
        new_manager_def login_world_def memory_getItem_def decompress_def table_parse_def
        login_table_def)

lemma login_create:
  "createSnapshot (memory_env login_table) login_manager ''d'' 4 [(''email'', JStr ''d'')]
     None login_world =
     (Inr (login_snapshot ''d'' 4),
      \<lparr> store = [(''form_snapshots_login'', ''[b,c,d]'')], console = [] \<rparr>)"
  by (simp add: createSnapshot_def getSnapshots_def getSnapshots_try_def memory_env_def
        login_manager_def new_manager_def login_world_def memory_getItem_def decompress_def
        table_parse_def login_table_def saveSnapshots_def compress_def memory_setItem_def
        table_stringify_def login_snapshot_def)

lemma login_auto_changes:
  "hasImportantChanges login_config [(''email'', JStr ''d'')] [(''email'', JStr ''c'')]"
  "autoChanges login_config [(''email'', JStr ''d'')] [(''email'', JStr ''c'')]
     = [(''email'', FieldChange (JStr ''c'') (JStr ''d''))]"
  by (simp_all add: hasImportantChanges_def autoChanges_def login_config_def flag_def
        get_field_def js_assign_def)

lemma login_create_auto:
  "createAutoSnapshot (memory_env login_table) login_manager ''d'' 4 login_config
     [(''email'', JStr ''d'')] [(''email'', JStr ''c'')] login_world =
     (Inr (Some login_auto_snapshot),
      \<lparr> store = [(''form_snapshots_login'', ''[b,c,auto d]'')], console = [] \<rparr>)"
  by (simp add: createAutoSnapshot_def login_auto_changes createSnapshot_def getSnapshots_def
        getSnapshots_try_def memory_env_def login_manager_def new_manager_def login_world_def
        memory_getItem_def decompress_def table_parse_def login_table_def saveSnapshots_def
        compress_def memory_setItem_def table_stringify_def login_snapshot_def
        login_auto_snapshot_def)

text \<open>
  Claim C10. Every snapshot that \<^verbatim>\<open>createSnapshot\<close> returns, and every snapshot that
  \<^verbatim>\<open>createAutoSnapshot\<close> returns, has the version \<^verbatim>\<open>"1.0"\<close>, whatever the state,
  the metadata, the configuration and the environment are: the store assigns no other
  version and takes none from its caller.
\<close>

theorem store_version_constant:
  "(fst (createSnapshot env m uuid now st md w) = Inr s \<longrightarrow> version s = ''1.0'')
   \<and> (fst (createAutoSnapshot env' m' uuid' now' formConfig cur prev w') = Inr (Some s')
        \<longrightarrow> version s' = ''1.0'')"
proof (intro conjI impI)
  assume "fst (createSnapshot env m uuid now st md w) = Inr s"
  from createSnapshot_returns[OF this] show "version s = ''1.0''" by simp
next
  assume "fst (createAutoSnapshot env' m' uuid' now' formConfig cur prev w') = Inr (Some s')"
  from createSnapshot_returns[OF createAutoSnapshot_returns[OF this]]
  show "version s' = ''1.0''" by simp
qed

theorem store_version_constant_witness:
  "fst (createSnapshot (memory_env login_table) login_manager ''d'' 4
          [(''email'', JStr ''d'')] None login_world) = Inr (login_snapshot ''d'' 4)
   \<and> version (login_snapshot ''d'' 4) = ''1.0''
   \<and> fst (createAutoSnapshot (memory_env login_table) login_manager ''d'' 4 login_config
            [(''email'', JStr ''d'')] [(''email'', JStr ''c'')] login_world)
       = Inr (Some login_auto_snapshot)
   \<and> version login_auto_snapshot = ''1.0''"
  using store_version_constant
          [of "memory_env login_table" login_manager "''d''" 4 "[(''email'', JStr ''d'')]" None
              login_world "login_snapshot ''d'' 4"
              "memory_env login_table" login_manager "''d''" 4 login_config
              "[(''email'', JStr ''d'')]" "[(''email'', JStr ''c'')]" login_world
              login_auto_snapshot]
  by (simp add: login_create login_create_auto)

text \<open>
  Claim C6. With \<^verbatim>\<open>maxSnapshots = 3\<close> and \<^verbatim>\<open>autoCleanup\<close> enabled, on a store that
  holds the three snapshots \<open>a\<close>, \<open>b\<close>, \<open>c\<close> (oldest first), \<^verbatim>\<open>createSnapshot\<close>
  hands to the storage exactly the list \<open>b\<close>, \<open>c\<close> and the new snapshot: three
  snapshots, the oldest gone, the three newest in their order. It returns the new snapshot
  when that write succeeds.
\<close>

theorem eviction_boundary:
  assumes "maxSnapshots m = 3" and "autoCleanup m"
    and "getAllSnapshots env m w = (ParsedArray [a, b, c], w1)"
  shows "createSnapshot env m uuid now st md w =
     (let d = \<lparr> id' = uuid, timestamp = now, state = st, version = ''1.0'', metadata = md \<rparr>
      in case saveSnapshots env m [b, c, d] w1 of
           (Inl e, w2) \<Rightarrow> (Inl e, w2)
         | (Inr u, w2) \<Rightarrow> (Inr d, w2))"
  using assms by (simp add: createSnapshot_def getAllSnapshots_def Let_def)

theorem eviction_boundary_witness:
  "maxSnapshots login_manager = 3 \<and> autoCleanup login_manager
   \<and> fst (getAllSnapshots (memory_env login_table) login_manager login_world)
       = ParsedArray [login_snapshot ''a'' 1, login_snapshot ''b'' 2, login_snapshot ''c'' 3]
   \<and> createSnapshot (memory_env login_table) login_manager ''d'' 4
        [(''email'', JStr ''d'')] None login_world
       = (Inr (login_snapshot ''d'' 4),
          \<lparr> store = [(''form_snapshots_login'', ''[b,c,d]'')], console = [] \<rparr>)
   \<and> fst (getAllSnapshots (memory_env login_table) login_manager
            \<lparr> store = [(''form_snapshots_login'', ''[b,c,d]'')], console = [] \<rparr>)
       = ParsedArray [login_snapshot ''b'' 2, login_snapshot ''c'' 3, login_snapshot ''d'' 4]"
proof -
  have h1: "maxSnapshots login_manager = 3" and h2: "autoCleanup login_manager"
    by (simp_all add: login_manager_def new_manager_def)
  have h3: "getAllSnapshots (memory_env login_table) login_manager login_world =
      (ParsedArray [login_snapshot ''a'' 1, login_snapshot ''b'' 2, login_snapshot ''c'' 3],
       login_world)"
    by (simp add: getAllSnapshots_def login_read)
  have save: "saveSnapshots (memory_env login_table) login_manager
      [login_snapshot ''b'' 2, login_snapshot ''c'' 3,
       \<lparr> id' = ''d'', timestamp = 4, state = [(''email'', JStr ''d'')], version = ''1.0'',
         metadata = None \<rparr>] login_world
      = (Inr (), \<lparr> store = [(''form_snapshots_login'', ''[b,c,d]'')], console = [] \<rparr>)"
    by (simp add: saveSnapshots_def memory_env_def login_manager_def new_manager_def
          login_world_def compress_def memory_setItem_def table_stringify_def login_table_def
          login_snapshot_def)
  have after: "fst (getAllSnapshots (memory_env login_table) login_manager
            \<lparr> store = [(''form_snapshots_login'', ''[b,c,d]'')], console = [] \<rparr>)
       = ParsedArray [login_snapshot ''b'' 2, login_snapshot ''c'' 3, login_snapshot ''d'' 4]"
    by (simp add: getAllSnapshots_def getSnapshots_def getSnapshots_try_def memory_env_def
          login_manager_def new_manager_def memory_getItem_def decompress_def table_parse_def
          login_table_def)
  from eviction_boundary[OF h1 h2 h3, of "''d''" 4 "[(''email'', JStr ''d'')]" None]
  have "createSnapshot (memory_env login_table) login_manager ''d'' 4
        [(''email'', JStr ''d'')] None login_world
       = (Inr (login_snapshot ''d'' 4),
          \<lparr> store = [(''form_snapshots_login'', ''[b,c,d]'')], console = [] \<rparr>)"
    using save by (simp add: Let_def login_snapshot_def)
  with h1 h2 h3 after show ?thesis by simp
qed

text \<open>The list that \<^verbatim>\<open>createSnapshot\<close> writes after the stored list \<open>xs\<close>.\<close>

lemma createSnapshot_after_read:
  assumes "getSnapshots env m w = (ParsedArray xs, w1)"
  shows "createSnapshot env m uuid now st md w =
     (let d = \<lparr> id' = uuid, timestamp = now, state = st, version = ''1.0'', metadata = md \<rparr>
      in case saveSnapshots env m
                (if autoCleanup m \<and> int (length xs) + 1 > maxSnapshots m
                 then tl (xs @ [d]) else xs @ [d]) w1 of
           (Inl e', w2) \<Rightarrow> (Inl e', w2)
         | (Inr u, w2) \<Rightarrow> (Inr d, w2))"
  using assms by (simp add: createSnapshot_def Let_def)

lemma saveSnapshots_throws:
  "saveSnapshots env m xs w = (Inl e, w2) \<Longrightarrow> w2 = w"
  by (auto simp: saveSnapshots_def split: sum.splits)

text \<open>
  Claim C2, as the code has it. When the read of the stored list throws (in
  \<^verbatim>\<open>getItem\<close>, in the decoding or in \<^verbatim>\<open>JSON.parse\<close>), \<^verbatim>\<open>createSnapshot\<close>
  writes one line to the console and goes on from the empty list: it hands to the storage
  the new snapshot alone, or no snapshot at all when \<^verbatim>\<open>autoCleanup\<close> is on and
  \<^verbatim>\<open>maxSnapshots\<close> is below 1, and returns the new snapshot when that write succeeds.
  What the write throws (in \<^verbatim>\<open>JSON.stringify\<close>, in the encoding or in
  \<^verbatim>\<open>setItem\<close>) is not caught: after a read that threw and after a read that gave a
  list \<open>xs\<close> alike, it is the result of \<^verbatim>\<open>createSnapshot\<close>, and the storage is as
  it was.
\<close>

theorem createSnapshot_failures:
  "(getSnapshots_try env m (store w) = Inl e \<longrightarrow>
      createSnapshot env m uuid now st md w =
        (let d = \<lparr> id' = uuid, timestamp = now, state = st, version = ''1.0'',
                   metadata = md \<rparr>;
             w1 = w\<lparr>console := console w @ [''Error loading snapshots:'']\<rparr>
         in case saveSnapshots env m
                   (if autoCleanup m \<and> maxSnapshots m < 1 then [] else [d]) w1 of
              (Inl e', w2) \<Rightarrow> (Inl e', w1)
            | (Inr u, w2) \<Rightarrow> (Inr d, w2)))
   \<and> (getSnapshots_try env m (store w) = Inr (ParsedArray xs) \<longrightarrow>
      createSnapshot env m uuid now st md w =
        (let d = \<lparr> id' = uuid, timestamp = now, state = st, version = ''1.0'',
                   metadata = md \<rparr>
         in case saveSnapshots env m
                   (if autoCleanup m \<and> int (length xs) + 1 > maxSnapshots m
                    then tl (xs @ [d]) else xs @ [d]) w of
              (Inl e', w2) \<Rightarrow> (Inl e', w)
            | (Inr u, w2) \<Rightarrow> (Inr d, w2)))"
proof (intro conjI impI)
  assume h: "getSnapshots_try env m (store w) = Inl e"
  then have r: "getSnapshots env m w
      = (ParsedArray [], w\<lparr>console := console w @ [''Error loading snapshots:'']\<rparr>)"
    by (simp add: getSnapshots_def)
  show "createSnapshot env m uuid now st md w =
        (let d = \<lparr> id' = uuid, timestamp = now, state = st, version = ''1.0'',
                   metadata = md \<rparr>;
             w1 = w\<lparr>console := console w @ [''Error loading snapshots:'']\<rparr>
         in case saveSnapshots env m
                   (if autoCleanup m \<and> maxSnapshots m < 1 then [] else [d]) w1 of
              (Inl e', w2) \<Rightarrow> (Inl e', w1)
            | (Inr u, w2) \<Rightarrow> (Inr d, w2))"
    unfolding createSnapshot_after_read[OF r] Let_def
    by (auto split: prod.splits sum.splits dest: saveSnapshots_throws)
next
  assume h: "getSnapshots_try env m (store w) = Inr (ParsedArray xs)"
  then have r: "getSnapshots env m w = (ParsedArray xs, w)"
    by (simp add: getSnapshots_def)
  show "createSnapshot env m uuid now st md w =
        (let d = \<lparr> id' = uuid, timestamp = now, state = st, version = ''1.0'',
                   metadata = md \<rparr>
         in case saveSnapshots env m
                   (if autoCleanup m \<and> int (length xs) + 1 > maxSnapshots m
                    then tl (xs @ [d]) else xs @ [d]) w of
              (Inl e', w2) \<Rightarrow> (Inl e', w)
            | (Inr u, w2) \<Rightarrow> (Inr d, w2))"
    unfolding createSnapshot_after_read[OF r] Let_def
    by (auto split: prod.splits sum.splits dest: saveSnapshots_throws)
qed

lemma createSnapshot_non_array:
  "getSnapshots_try env m (store w) = Inr ParsedOther \<Longrightarrow>
   createSnapshot env m uuid now st md w = (Inl (JsError ''TypeError''), w)"
  by (simp add: createSnapshot_def getSnapshots_def)

lemma corrupt_read:
  assumes "snapshotKey m = ''form_snapshots_login''" and "\<not> compressionEnabled m"
  shows "getSnapshots_try (memory_env login_table) m (store corrupt_world)
     = Inl (JsError ''SyntaxError'')"
  using assms
  by (simp add: getSnapshots_try_def memory_env_def corrupt_world_def memory_getItem_def
        decompress_def table_parse_def login_table_def)

lemma login_manager_fields:
  "snapshotKey login_manager = ''form_snapshots_login''" "\<not> compressionEnabled login_manager"
  "autoCleanup login_manager" "maxSnapshots login_manager = 3"
  "snapshotKey empty_manager = ''form_snapshots_login''" "\<not> compressionEnabled empty_manager"
  "autoCleanup empty_manager" "maxSnapshots empty_manager = - 1"
  by (simp_all add: login_manager_def empty_manager_def new_manager_def)

theorem createSnapshot_failures_witness:
  "getSnapshots_try (memory_env login_table) login_manager (store corrupt_world)
     = Inl (JsError ''SyntaxError'')
   \<and> createSnapshot (memory_env login_table) login_manager ''d'' 4
        [(''email'', JStr ''d'')] None corrupt_world
       = (Inr (login_snapshot ''d'' 4),
          \<lparr> store = [(''form_snapshots_login'', ''[d]'')],
            console = [''Error loading snapshots:''] \<rparr>)
   \<and> createSnapshot (memory_env login_table) empty_manager ''d'' 4
        [(''email'', JStr ''d'')] None corrupt_world
       = (Inr (login_snapshot ''d'' 4),
          \<lparr> store = [(''form_snapshots_login'', ''[]'')],
            console = [''Error loading snapshots:''] \<rparr>)
   \<and> getSnapshots_try (full_env login_table) login_manager (store login_world)
       = Inr (ParsedArray
                [login_snapshot ''a'' 1, login_snapshot ''b'' 2, login_snapshot ''c'' 3])
   \<and> createSnapshot (full_env login_table) login_manager ''d'' 4
        [(''email'', JStr ''d'')] None login_world
       = (Inl (JsError ''QuotaExceededError''), login_world)"
proof -
  let ?d = "\<lparr> id' = ''d'', timestamp = 4, state = [(''email'', JStr ''d'')],
               version = ''1.0'', metadata = None \<rparr> :: (state, SnapshotMetadata) FormSnapshot"
  let ?w1 = "corrupt_world\<lparr>console := console corrupt_world @ [''Error loading snapshots:'']\<rparr>"
  have h: "getSnapshots_try (memory_env login_table) login_manager (store corrupt_world)
     = Inl (JsError ''SyntaxError'')"
    by (rule corrupt_read) (simp_all add: login_manager_fields)
  have h': "getSnapshots_try (memory_env login_table) empty_manager (store corrupt_world)
     = Inl (JsError ''SyntaxError'')"
    by (rule corrupt_read) (simp_all add: login_manager_fields)
  have save: "saveSnapshots (memory_env login_table) login_manager [?d] ?w1
      = (Inr (), \<lparr> store = [(''form_snapshots_login'', ''[d]'')],
                   console = [''Error loading snapshots:''] \<rparr>)"
    by (simp add: saveSnapshots_def memory_env_def login_manager_fields
          corrupt_world_def compress_def memory_setItem_def table_stringify_def login_table_def
          login_snapshot_def)
  have save': "saveSnapshots (memory_env login_table) empty_manager [] ?w1
      = (Inr (), \<lparr> store = [(''form_snapshots_login'', ''[]'')],
                   console = [''Error loading snapshots:''] \<rparr>)"
    by (simp add: saveSnapshots_def memory_env_def login_manager_fields
          corrupt_world_def compress_def memory_setItem_def table_stringify_def login_table_def
          login_snapshot_def)
  have g: "getSnapshots_try (full_env login_table) login_manager (store login_world)
       = Inr (ParsedArray
                [login_snapshot ''a'' 1, login_snapshot ''b'' 2, login_snapshot ''c'' 3])"
    by (simp add: getSnapshots_try_def full_env_def memory_env_def login_manager_fields
          login_world_def memory_getItem_def decompress_def table_parse_def login_table_def)
  have c1: "createSnapshot (memory_env login_table) login_manager ''d'' 4
        [(''email'', JStr ''d'')] None corrupt_world
       = (Inr (login_snapshot ''d'' 4),
          \<lparr> store = [(''form_snapshots_login'', ''[d]'')],
            console = [''Error loading snapshots:''] \<rparr>)"
    using createSnapshot_failures
            [of "memory_env login_table" login_manager corrupt_world "JsError ''SyntaxError''"
                "''d''" 4 "[(''email'', JStr ''d'')]" None "[]"] h save
    by (simp add: Let_def login_manager_fields login_snapshot_def)
  have c2: "createSnapshot (memory_env login_table) empty_manager ''d'' 4
        [(''email'', JStr ''d'')] None corrupt_world
       = (Inr (login_snapshot ''d'' 4),
          \<lparr> store = [(''form_snapshots_login'', ''[]'')],
            console = [''Error loading snapshots:''] \<rparr>)"
    using createSnapshot_failures
            [of "memory_env login_table" empty_manager corrupt_world "JsError ''SyntaxError''"
                "''d''" 4 "[(''email'', JStr ''d'')]" None "[]"] h' save'
    by (simp add: Let_def login_manager_fields login_snapshot_def)
  have save3: "saveSnapshots (full_env login_table) login_manager
       [login_snapshot ''b'' 2, login_snapshot ''c'' 3,
        \<lparr> id' = ''d'', timestamp = 4, state = [(''email'', JStr ''d'')],
               version = ''1.0'', metadata = None \<rparr>] login_world
      = (Inl (JsError ''QuotaExceededError''), login_world)"
    by (simp add: saveSnapshots_def full_env_def memory_env_def login_manager_fields
          compress_def table_stringify_def login_table_def login_snapshot_def)
  have c3: "createSnapshot (full_env login_table) login_manager ''d'' 4
        [(''email'', JStr ''d'')] None login_world
       = (Inl (JsError ''QuotaExceededError''), login_world)"
    using createSnapshot_failures
            [of "full_env login_table" login_manager login_world "JsError ''SyntaxError''"
                "''d''" 4 "[(''email'', JStr ''d'')]" None
                "[login_snapshot ''a'' 1, login_snapshot ''b'' 2, login_snapshot ''c'' 3]"]
          g save3
    by (simp add: Let_def login_manager_fields)
  from h c1 c2 g c3 show ?thesis by simp
qed

text \<open>
  The claim C2 as stated fails on a storage that is full: \<^verbatim>\<open>setItem\<close> throws and
  \<^verbatim>\<open>createSnapshot\<close> throws the same exception to its caller.
\<close>

theorem createSnapshot_write_failure_propagates:
  "createSnapshot (full_env login_table) login_manager ''d'' 4 [(''email'', JStr ''d'')]
     None login_world = (Inl (JsError ''QuotaExceededError''), login_world)"
  by (simp add: createSnapshot_def getSnapshots_def getSnapshots_try_def full_env_def
        memory_env_def login_manager_def new_manager_def login_world_def memory_getItem_def
        decompress_def table_parse_def login_table_def saveSnapshots_def compress_def
        table_stringify_def login_snapshot_def)

lemma null_payload:
  "createSnapshot (memory_env login_table) login_manager ''d'' 4 [(''email'', JStr ''d'')]
     None null_world = (Inl (JsError ''TypeError''), null_world)"
  by (rule createSnapshot_non_array)
     (simp add: getSnapshots_try_def memory_env_def login_manager_fields null_world_def
        memory_getItem_def decompress_def table_parse_def)

section \<open>The migration manager: a migration that throws\<close>

lemma migrate_loop_append:
  "migrate_loop dir clock k s (pre @ rest) =
     (case migrate_loop dir clock k s pre of
        Inl e \<Rightarrow> Inl e
      | Inr mid \<Rightarrow> migrate_loop dir clock (k + length pre) mid rest)"
  by (induction pre arbitrary: k s) (auto split: sum.splits)

lemma example_versions:
  "compareVersions ''1.0.0'' ''2.0.0'' = -1" "compareVersions ''2.0.0'' ''1.0.0'' = 1"
  "compareVersions ''1.1.0'' ''2.0.0'' = -1" "compareVersions ''2.0.0'' ''1.1.0'' = 1"
  "compareVersions ''1.1.0'' ''1.0.0'' = 1" "compareVersions ''2.0.0'' ''2.0.0'' = 0"
  "compareVersions ''1.1.0'' ''1.1.0'' = 0"
  by code_simp+

text \<open>
  Claim C3. Let the migrations selected for the target be \<open>pre\<close>, then \<open>m\<close>, then
  \<open>post\<close>, in the order of execution; let the migrations of \<open>pre\<close> succeed and give the
  snapshot \<open>mid\<close>, and let the function of \<open>m\<close> (\<^verbatim>\<open>up\<close> on an upgrade, \<^verbatim>\<open>down\<close> on a
  downgrade) throw on the state of \<open>mid\<close>. Then \<^verbatim>\<open>migrateToVersion\<close> fails with a
  \<^verbatim>\<open>SnapshotMigrationError\<close> that carries the version of \<open>m\<close> and the snapshot
  \<open>mid\<close> on which \<open>m\<close> failed. The result does not depend on \<open>post\<close>: the rest of the
  chain is not run, and no snapshot is returned.
\<close>

theorem migrateToVersion_failure:
  assumes differ: "compareVersions (version s) target \<noteq> 0"
    and chain: "relevantMigrations registered (version s) target = pre @ m # post"
    and dir: "dir = (if compareVersions target (version s) > 0 then Up else Down)"
    and before: "migrate_loop dir clock 0 s pre = Inr mid"
    and throws: "(if dir = Up then up m else down m) (state mid) = Inl e"
  shows "migrateToVersion registered clock s target =
           Inl (SnapshotMigrationError
                  (''Migration '' @ direction_text dir @ '' to version '' @ mig_version m
                     @ '' failed: '' @ error_text e)
                  (mig_version m) mid)"
proof -
  have step: "executeMigration mid m dir (clock (length pre)) =
      Inl (SnapshotMigrationError
             (''Migration '' @ direction_text dir @ '' to version '' @ mig_version m
                @ '' failed: '' @ error_text e)
             (mig_version m) mid)"
    using throws by (simp add: executeMigration_def)
  have "migrateToVersion registered clock s target = migrate_loop dir clock 0 s (pre @ m # post)"
    using differ chain dir by (simp add: migrateToVersion_def)
  also have "\<dots> = migrate_loop dir clock (length pre) mid (m # post)"
    by (simp add: migrate_loop_append before)
  also have "\<dots> = Inl (SnapshotMigrationError
                  (''Migration '' @ direction_text dir @ '' to version '' @ mig_version m
                     @ '' failed: '' @ error_text e)
                  (mig_version m) mid)"
    by (simp add: step)
  finally show ?thesis .
qed

theorem migrateToVersion_failure_witness:
  "migrateToVersion example_migrations (\<lambda>k. 100 + int k) old_snapshot ''2.0.0'' =
     Inl (SnapshotMigrationError
            ''Migration up to version 2.0.0 failed: TypeError: name is undefined''
            ''2.0.0'' renamed_snapshot)"
proof -
  have a: "compareVersions (version old_snapshot) ''2.0.0'' \<noteq> 0"
    by (simp add: old_snapshot_def example_versions)
  have b: "relevantMigrations example_migrations (version old_snapshot) ''2.0.0''
             = [rename_migration] @ broken_migration # []"
    by (simp add: example_migrations_def addMigration_def sort_by_def example_versions
          relevantMigrations_def old_snapshot_def rename_migration_def broken_migration_def)
  have c: "Up = (if compareVersions ''2.0.0'' (version old_snapshot) > 0 then Up else Down)"
    by (simp add: old_snapshot_def example_versions)
  have d: "migrate_loop Up (\<lambda>k. 100 + int k) 0 old_snapshot [rename_migration]
             = Inr renamed_snapshot"
    by (simp add: executeMigration_def old_snapshot_def renamed_snapshot_def rename_key_def
          rename_migration_def)
  have e: "(if Up = Up then up broken_migration else down broken_migration)
             (state renamed_snapshot) = Inl (JsError ''TypeError: name is undefined'')"
    by (simp add: broken_migration_def)
  show ?thesis
    using migrateToVersion_failure[OF a b c d e]
    by (simp add: direction_text_def error_text_def broken_migration_def)
qed

section \<open>The differ and the validator\<close>

lemma set_new_Set: "set (new_Set xs) = set xs"
  by (simp add: new_Set_def)

lemma distinct_new_Set: "distinct (new_Set xs)"
  by (simp add: new_Set_def)

lemma js_assign_keys:
  "fst ` set (js_assign k v xs)
     = fst ` set xs \<union> (if k = ''__proto__'' then {} else {k})"
  by (simp add: js_assign_def AList.dom_update)

lemma js_assign_distinct:
  "distinct (map fst xs) \<Longrightarrow> distinct (map fst (js_assign k v xs))"
  by (simp add: js_assign_def AList.distinct_update)

lemma js_assign_map_of:
  "map_of (js_assign k v xs) k' =
     (if k \<noteq> ''__proto__'' \<and> k' = k then Some v else map_of xs k')"
  by (simp add: js_assign_def AList.update_conv')

lemma find_added_fold_keys:
  "fst ` set (fold (\<lambda>key acc. if key \<notin> set keys1
                                then js_assign key (get_field state2 key) acc else acc)
                ks acc0)
     = fst ` set acc0 \<union> {k \<in> set ks. k \<noteq> ''__proto__'' \<and> k \<notin> set keys1}"
  by (induction ks arbitrary: acc0) (auto simp: js_assign_keys)

lemma find_added_fold_distinct:
  "distinct (map fst acc0) \<Longrightarrow>
   distinct (map fst (fold (\<lambda>key acc. if key \<notin> set keys1
                                        then js_assign key (get_field state2 key) acc
                                        else acc) ks acc0))"
  by (induction ks arbitrary: acc0) (auto simp: js_assign_distinct)

lemma find_added_keys:
  "fst ` set (find_added keys1 keys2 state2)
     = {k \<in> set keys2. k \<noteq> ''__proto__'' \<and> k \<notin> set keys1}"
  by (simp add: find_added_def find_added_fold_keys)

lemma find_added_distinct: "distinct (map fst (find_added keys1 keys2 state2))"
  by (simp add: find_added_def find_added_fold_distinct)

lemma compare_key_removed:
  "k \<notin> set keys2 \<Longrightarrow>
   compare_key keys2 s1 s2 k (r, m, u) = (js_assign k (get_field s1 k) r, m, u)"
  by (simp add: compare_key_def)

lemma compare_key_modified:
  "k \<in> set keys2 \<Longrightarrow> stringify (get_field s1 k) \<noteq> stringify (get_field s2 k) \<Longrightarrow>
   compare_key keys2 s1 s2 k (r, m, u)
     = (r, js_assign k (FieldChange (get_field s1 k) (get_field s2 k)) m, u)"
  by (simp add: compare_key_def)

lemma compare_key_unchanged:
  "k \<in> set keys2 \<Longrightarrow> stringify (get_field s1 k) = stringify (get_field s2 k) \<Longrightarrow>
   compare_key keys2 s1 s2 k (r, m, u) = (r, m, u @ [k])"
  by (simp add: compare_key_def)

lemma compare_fold:
  "fold (compare_key keys2 s1 s2) ks (r, m, u) = (r', m', u')
   \<Longrightarrow> diff_inv keys2 s1 s2 ks r m u r' m' u'"
proof (induction ks arbitrary: r m u)
  case Nil
  then show ?case by (simp add: diff_inv_def)
next
  case (Cons k ks)
  consider (gone) "k \<notin> set keys2"
    | (changed) "k \<in> set keys2" "stringify (get_field s1 k) \<noteq> stringify (get_field s2 k)"
    | (same) "k \<in> set keys2" "stringify (get_field s1 k) = stringify (get_field s2 k)"
    by blast
  then show ?case
  proof cases
    case gone
    with Cons.prems have "fold (compare_key keys2 s1 s2) ks
        (js_assign k (get_field s1 k) r, m, u) = (r', m', u')"
      by (simp add: compare_key_removed)
    from Cons.IH[OF this] gone show ?thesis
      by (auto simp: diff_inv_def js_assign_keys js_assign_distinct split: if_splits)
  next
    case changed
    with Cons.prems have "fold (compare_key keys2 s1 s2) ks
        (r, js_assign k (FieldChange (get_field s1 k) (get_field s2 k)) m, u) = (r', m', u')"
      by (simp add: compare_key_modified)
    from Cons.IH[OF this] changed show ?thesis
      by (auto simp: diff_inv_def js_assign_keys js_assign_distinct split: if_splits)
  next
    case same
    with Cons.prems have "fold (compare_key keys2 s1 s2) ks (r, m, u @ [k]) = (r', m', u')"
      by (simp add: compare_key_unchanged)
    from Cons.IH[OF this] same show ?thesis
      by (auto simp: diff_inv_def)
  qed
qed

lemma ab_ac_diff:
  "compareSnapshots ab_snapshot ac_snapshot =
     \<lparr> added = [(''c'', JNum 3)], removed = [(''b'', JNum 2)], modified = [],
       unchanged = [''a''] \<rparr>"
  by code_simp

text \<open>
  What \<^verbatim>\<open>compareSnapshots\<close> does with every key but \<^verbatim>\<open>__proto__\<close>: the keys of the
  four components are keys of the two states, each key of the two states other than
  \<^verbatim>\<open>__proto__\<close> is in one of them, no key is in two components, and no component holds
  a key twice.
\<close>

lemma compareSnapshots_other_keys:
  "(let d = compareSnapshots a b;
        A = fst ` set (added d); R = fst ` set (removed d);
        M = fst ` set (modified d); U = set (unchanged d)
    in (fst ` set (state a) \<union> fst ` set (state b)) - {''__proto__''} \<subseteq> A \<union> R \<union> M \<union> U
       \<and> A \<union> R \<union> M \<union> U \<subseteq> fst ` set (state a) \<union> fst ` set (state b)
       \<and> A \<inter> R = {} \<and> A \<inter> M = {} \<and> A \<inter> U = {}
       \<and> R \<inter> M = {} \<and> R \<inter> U = {} \<and> M \<inter> U = {}
       \<and> distinct (map fst (added d)) \<and> distinct (map fst (removed d))
       \<and> distinct (map fst (modified d)) \<and> distinct (unchanged d))"
proof -
  obtain r m u where f:
    "fold (compare_key (new_Set (map fst (state b))) (state a) (state b))
       (new_Set (map fst (state a))) ([], [], []) = (r, m, u)"
    by (metis prod_cases3)
  have "diff_inv (new_Set (map fst (state b))) (state a) (state b)
          (new_Set (map fst (state a))) [] [] [] r m u"
    by (rule compare_fold[OF f])
  then have cf:
     "fst ` set r = {k \<in> fst ` set (state a). k \<noteq> ''__proto__'' \<and> k \<notin> fst ` set (state b)}"
     "fst ` set m = {k \<in> fst ` set (state a). k \<noteq> ''__proto__'' \<and> k \<in> fst ` set (state b)
        \<and> stringify (get_field (state a) k) \<noteq> stringify (get_field (state b) k)}"
     "set u = {k \<in> fst ` set (state a). k \<in> fst ` set (state b)
        \<and> stringify (get_field (state a) k) = stringify (get_field (state b) k)}"
     "distinct (map fst r)" "distinct (map fst m)" "distinct u"
    by (simp_all add: diff_inv_def set_new_Set distinct_new_Set)
  have d: "compareSnapshots a b =
      \<lparr> added = find_added (new_Set (map fst (state a))) (new_Set (map fst (state b)))
                  (state b),
        removed = r, modified = m, unchanged = u \<rparr>"
    by (simp add: compareSnapshots_def Let_def f)
  show ?thesis
    unfolding d Let_def
    using cf(4,5,6)
    by (auto simp: cf(1,2,3) find_added_keys find_added_distinct set_new_Set)
qed

text \<open>
  Claim C4, on the code. The state \<^verbatim>\<open>{"x":1,"__proto__":2}\<close> has the two keys
  \<^verbatim>\<open>x\<close> and \<^verbatim>\<open>__proto__\<close>. Compared with the state \<^verbatim>\<open>{"x":1}\<close>, in either
  order, and with the state \<^verbatim>\<open>{"x":1,"__proto__":3}\<close>, the result of
  \<^verbatim>\<open>compareSnapshots\<close> holds the key \<^verbatim>\<open>__proto__\<close> in none of its four
  components; compared with itself, the result holds it in \<^verbatim>\<open>unchanged\<close>.
\<close>

theorem compareSnapshots_loses_proto_key:
  "map fst (state (proto_snapshot 2)) = [''x'', ''__proto__'']
   \<and> compareSnapshots plain_snapshot (proto_snapshot 2)
       = \<lparr> added = [], removed = [], modified = [], unchanged = [''x''] \<rparr>
   \<and> compareSnapshots (proto_snapshot 2) plain_snapshot
       = \<lparr> added = [], removed = [], modified = [], unchanged = [''x''] \<rparr>
   \<and> compareSnapshots (proto_snapshot 2) (proto_snapshot 3)
       = \<lparr> added = [], removed = [], modified = [], unchanged = [''x''] \<rparr>
   \<and> compareSnapshots (proto_snapshot 2) (proto_snapshot 2)
       = \<lparr> added = [], removed = [], modified = [], unchanged = [''x'', ''__proto__''] \<rparr>"
  by code_simp

lemma get_prop_object_like:
  "object_like st \<Longrightarrow> get_prop engine st k = Inr (field_value engine st k)"
  by (cases st) (simp_all add: object_like_def get_prop_def field_value_def)

lemma type_errors_Nil:
  "type_errors field declared v = [] \<longleftrightarrow> has_declared_type declared v"
  by (simp add: type_errors_def has_declared_type_def)

lemma validate_field_object_like:
  assumes "object_like st"
  shows "\<exists>es. validate_field engine st field fc = Inr es
     \<and> (es = [] \<longleftrightarrow>
          (flag (required fc) \<longrightarrow> \<not> missing (field_value engine st field))
          \<and> (\<not> missing (field_value engine st field)
               \<longrightarrow> has_declared_type (ftype fc) (field_value engine st field)))"
  by (simp add: validate_field_def get_prop_object_like[OF assms] type_errors_Nil)

lemma map_result_total:
  "(\<forall>x \<in> set xs. \<exists>y. f x = Inr y \<and> (y = [] \<longleftrightarrow> P x))
   \<Longrightarrow> \<exists>ys. map_result f xs = Inr ys \<and> (concat ys = [] \<longleftrightarrow> list_all P xs)"
proof (induction xs)
  case Nil
  then show ?case by simp
next
  case (Cons x xs)
  from Cons.prems obtain y where y: "f x = Inr y" "y = [] \<longleftrightarrow> P x" by auto
  from Cons.prems have "\<forall>x \<in> set xs. \<exists>y. f x = Inr y \<and> (y = [] \<longleftrightarrow> P x)" by simp
  from Cons.IH[OF this] obtain ys where
    ys: "map_result f xs = Inr ys" "concat ys = [] \<longleftrightarrow> list_all P xs" by auto
  from y ys show ?case by simp
qed

lemma age_validation:
  "validateSnapshot sample_engine age_snapshot age_config =
     Inr \<lparr> isValid = False,
           errors = [\<lparr> err_field = Some ''name'',
                       message = ''Required field '' @ [CHR 0x22] @ ''name'' @ [CHR 0x22]
                                 @ '' is missing'',
                       code = ''REQUIRED_FIELD'' \<rparr>] \<rparr>"
  by code_simp

lemma named_validation:
  "validateSnapshot sample_engine named_snapshot age_config =
     Inr \<lparr> isValid = True, errors = [] \<rparr>"
  by code_simp

lemma array_validation:
  "validateSnapshot sample_engine array_snapshot index_config =
     Inr \<lparr> isValid = False,
           errors = [invalid_type ''0'' ''a string'', invalid_type ''push'' ''a number'',
                     \<lparr> err_field = None, message = ''Invalid metadata structure'',
                       code = ''INVALID_METADATA'' \<rparr>] \<rparr>"
  by code_simp

text \<open>
  Claim C9. For every snapshot and every field configuration, \<^verbatim>\<open>validateSnapshot\<close>
  does not throw: it returns a result, in which \<^verbatim>\<open>isValid\<close> is true exactly when
  \<^verbatim>\<open>errors\<close> is empty, and that is exactly when the snapshot conforms to the
  configuration (its state is object-like, no required field is missing, every field that
  is present has its declared type, and the metadata, when given, is object-like).
\<close>

theorem validateSnapshot_total:
  "\<exists>r. validateSnapshot engine s c = Inr r
      \<and> (isValid r \<longleftrightarrow> errors r = [])
      \<and> (isValid r \<longleftrightarrow> conforms engine s c)"
proof (cases "object_like (state s)")
  case False
  then show ?thesis
    by (auto simp: validateSnapshot_def conforms_def object_like_def)
next
  case True
  have "\<forall>x \<in> set c. \<exists>y.
          (\<lambda>(field, fieldConfig). validate_field engine (state s) field fieldConfig) x = Inr y
          \<and> (y = [] \<longleftrightarrow>
               (\<lambda>(field, fieldConfig).
                  (flag (required fieldConfig)
                     \<longrightarrow> \<not> missing (field_value engine (state s) field))
                  \<and> (\<not> missing (field_value engine (state s) field)
                     \<longrightarrow> has_declared_type (ftype fieldConfig)
                           (field_value engine (state s) field))) x)"
    using validate_field_object_like[OF True] by (auto simp: split_def)
  from map_result_total[OF this] obtain ys where
    ys: "map_result (\<lambda>(field, fieldConfig).
                       validate_field engine (state s) field fieldConfig) c = Inr ys"
        "concat ys = [] \<longleftrightarrow>
           list_all (\<lambda>(field, fieldConfig).
              (flag (required fieldConfig)
                 \<longrightarrow> \<not> missing (field_value engine (state s) field))
              \<and> (\<not> missing (field_value engine (state s) field)
                 \<longrightarrow> has_declared_type (ftype fieldConfig)
                       (field_value engine (state s) field))) c"
    by blast
  have fields: "conforms engine s c \<longleftrightarrow>
      concat ys = []
      \<and> (case metadata s of None \<Rightarrow> True | Some md \<Rightarrow> \<not> truthy md \<or> typeof md = ''object'')"
    unfolding ys(2) using True by (simp add: conforms_def)
  show ?thesis
    unfolding fields using True
    by (simp add: validateSnapshot_def object_like_def ys(1) Let_def split: option.splits)
qed

theorem validateSnapshot_total_witness:
  "validateSnapshot sample_engine age_snapshot age_config =
     Inr \<lparr> isValid = False,
           errors = [\<lparr> err_field = Some ''name'',
                       message = ''Required field '' @ [CHR 0x22] @ ''name'' @ [CHR 0x22]
                                 @ '' is missing'',
                       code = ''REQUIRED_FIELD'' \<rparr>] \<rparr>
   \<and> \<not> conforms sample_engine age_snapshot age_config
   \<and> validateSnapshot sample_engine named_snapshot age_config
       = Inr \<lparr> isValid = True, errors = [] \<rparr>
   \<and> conforms sample_engine named_snapshot age_config
   \<and> map code (errors (projr (validateSnapshot sample_engine array_snapshot index_config)))
       = [''INVALID_TYPE'', ''INVALID_TYPE'', ''INVALID_METADATA'']
   \<and> \<not> conforms sample_engine array_snapshot index_config"
  using validateSnapshot_total[of sample_engine age_snapshot age_config]
        validateSnapshot_total[of sample_engine named_snapshot age_config]
        validateSnapshot_total[of sample_engine array_snapshot index_config]
  by (simp add: age_validation named_validation array_validation invalid_type_def)

section \<open>The order of versions\<close>

lemma compareVersions_loop_find:
  "compareVersions_loop p1 p2 i =
     (case find (\<lambda>j. part_at p1 j \<noteq> part_at p2 j) [i..<max (length p1) (length p2)] of
        None \<Rightarrow> 0
      | Some j \<Rightarrow> part_at p1 j - part_at p2 j)"
proof (induction p1 p2 i rule: compareVersions_loop.induct)
  case (1 parts1 parts2 i)
  show ?case
  proof (cases "i < max (length parts1) (length parts2)")
    case False
    then have "max (length parts1) (length parts2) \<le> i" by linarith
    then have "[i..<max (length parts1) (length parts2)] = []"
      by (metis upt_eq_Nil_conv)
    with False show ?thesis
      by (simp only: compareVersions_loop.simps[of parts1 parts2 i] if_False find.simps
            option.case)
  next
    case True
    then have upt: "[i..<max (length parts1) (length parts2)]
        = i # [Suc i..<max (length parts1) (length parts2)]"
      by (simp add: upt_conv_Cons)
    show ?thesis
    proof (cases "part_at parts1 i \<noteq> part_at parts2 i")
      case True
      with \<open>i < max (length parts1) (length parts2)\<close> show ?thesis
        by (simp add: compareVersions_loop.simps[of parts1 parts2 i] upt Let_def)
    next
      case False
      with \<open>i < max (length parts1) (length parts2)\<close> "1.IH"[OF _ refl refl] show ?thesis
        by (simp add: compareVersions_loop.simps[of parts1 parts2 i] upt Let_def)
    qed
  qed
qed

lemma perm3:
  assumes "distinct vs" and "set vs = {a, b, c}" and "a \<noteq> b" and "a \<noteq> c" and "b \<noteq> c"
  shows "vs \<in> {[a, b, c], [a, c, b], [b, a, c], [b, c, a], [c, a, b], [c, b, a]}"
proof -
  have "length vs = card (set vs)" using assms(1) by (simp add: distinct_card)
  also have "\<dots> = 3" using assms by simp
  finally obtain x y z where vs: "vs = [x, y, z]"
    by (metis length_0_conv length_Suc_conv numeral_3_eq_3)
  from assms(2) vs have s: "{x, y, z} = {a, b, c}" by simp
  have mem: "x \<in> {a, b, c}" "y \<in> {a, b, c}" "z \<in> {a, b, c}"
    using s by blast+
  have dist: "x \<noteq> y" "x \<noteq> z" "y \<noteq> z"
    using assms(1) vs by auto
  from mem dist show ?thesis unfolding vs by auto
qed

lemma three_versions:
  "compareVersions ''1.2.0'' ''1.10.0'' = -8"
  "compareVersions ''1.10.0'' ''1.2.0'' = 8"
  "compareVersions ''1.2.0'' ''2.0.0'' = -1"
  "compareVersions ''2.0.0'' ''1.2.0'' = 1"
  "compareVersions ''1.10.0'' ''2.0.0'' = -1"
  "compareVersions ''2.0.0'' ''1.10.0'' = 1"
  by code_simp+

lemma short_versions:
  "compareVersions ''1.2'' ''1.2.0'' = 0" "compareVersions ''2'' ''1.10.0'' = 1"
  by code_simp+

lemma sort_permutations:
  "vs \<in> {[''1.2.0'', ''1.10.0'', ''2.0.0''], [''1.2.0'', ''2.0.0'', ''1.10.0''],
          [''1.10.0'', ''1.2.0'', ''2.0.0''], [''1.10.0'', ''2.0.0'', ''1.2.0''],
          [''2.0.0'', ''1.2.0'', ''1.10.0''], [''2.0.0'', ''1.10.0'', ''1.2.0'']}
   \<Longrightarrow> sort_by compareVersions vs = [''1.2.0'', ''1.10.0'', ''2.0.0'']"
  by (auto simp: sort_by_def three_versions)

lemma sort_three_versions:
  assumes "distinct vs" and "set vs = {''1.2.0'', ''1.10.0'', ''2.0.0''}"
  shows "sort_by compareVersions vs = [''1.2.0'', ''1.10.0'', ''2.0.0'']"
  by (rule sort_permutations, rule perm3[OF assms]) simp_all

lemma report_versions:
  "versions (summary (generateReport snaps config filters now)) =
     sort_by compareVersions
       (new_Set (map (\<lambda>p. version (snapshot p))
                   (snapshots (generateReport snaps config filters now))))"
  by (simp add: generateReport_def Let_def)

lemma versioned_report:
  "map (\<lambda>p. version (snapshot p))
     (snapshots (generateReport versioned_snapshots [] no_filters 0))
     = [''2.0.0'', ''1.10.0'', ''1.2.0'', ''1.10.0'']"
  by code_simp

text \<open>
  Claim C7. \<^verbatim>\<open>compareVersions\<close> returns the difference of the first numeric segments
  in which the two versions differ, a missing segment being 0, and 0 when there is none.
  In this order, the versions 1.2.0, 1.10.0, 2.0.0, given in any order, sort to
  1.2.0, 1.10.0, 2.0.0, and so does the version list of the summary of a report whose
  snapshots have these three versions; the character order would put 1.10.0 first, since
  its third character is smaller.
\<close>

theorem version_sort:
  "compareVersions v1 v2 =
     (case find (\<lambda>j. segment v1 j \<noteq> segment v2 j) [0..<max (segments v1) (segments v2)] of
        None \<Rightarrow> 0
      | Some j \<Rightarrow> segment v1 j - segment v2 j)
   \<and> (distinct vs \<and> set vs = {''1.2.0'', ''1.10.0'', ''2.0.0''}
        \<longrightarrow> sort_by compareVersions vs = [''1.2.0'', ''1.10.0'', ''2.0.0''])
   \<and> (set (map (\<lambda>p. version (snapshot p))
               (snapshots (generateReport snaps config filters now)))
          = {''1.2.0'', ''1.10.0'', ''2.0.0''}
        \<longrightarrow> versions (summary (generateReport snaps config filters now))
              = [''1.2.0'', ''1.10.0'', ''2.0.0''])
   \<and> sort_by compareVersions [''1.2.0'', ''1.10.0'', ''2.0.0'']
        = [''1.2.0'', ''1.10.0'', ''2.0.0'']
   \<and> compareVersions ''1.2.0'' ''1.10.0'' < 0
   \<and> (of_char (''1.10.0'' ! 2) :: nat) < of_char (''1.2.0'' ! 2)
   \<and> compareVersions ''1.2'' ''1.2.0'' = 0"
proof (intro conjI impI)
  show "compareVersions v1 v2 =
     (case find (\<lambda>j. segment v1 j \<noteq> segment v2 j) [0..<max (segments v1) (segments v2)] of
        None \<Rightarrow> 0
      | Some j \<Rightarrow> segment v1 j - segment v2 j)"
    unfolding compareVersions_def compareVersions_loop_find segment_def segments_def
    by simp
next
  assume "distinct vs \<and> set vs = {''1.2.0'', ''1.10.0'', ''2.0.0''}"
  then show "sort_by compareVersions vs = [''1.2.0'', ''1.10.0'', ''2.0.0'']"
    using sort_three_versions by blast
next
  assume "set (map (\<lambda>p. version (snapshot p))
               (snapshots (generateReport snaps config filters now)))
            = {''1.2.0'', ''1.10.0'', ''2.0.0''}"
  then have "set (new_Set (map (\<lambda>p. version (snapshot p))
               (snapshots (generateReport snaps config filters now))))
            = {''1.2.0'', ''1.10.0'', ''2.0.0''}"
    by (simp only: set_new_Set)
  then show "versions (summary (generateReport snaps config filters now))
              = [''1.2.0'', ''1.10.0'', ''2.0.0'']"
    unfolding report_versions by (rule sort_three_versions[OF distinct_new_Set])
next
  show "sort_by compareVersions [''1.2.0'', ''1.10.0'', ''2.0.0'']
        = [''1.2.0'', ''1.10.0'', ''2.0.0'']"
    by (simp add: sort_by_def three_versions)
next
  show "compareVersions ''1.2.0'' ''1.10.0'' < 0" by (simp add: three_versions)
next
  show "(of_char (''1.10.0'' ! 2) :: nat) < of_char (''1.2.0'' ! 2)" by simp
next
  show "compareVersions ''1.2'' ''1.2.0'' = 0" by (simp add: short_versions)
qed

theorem version_sort_witness:
  "sort_by compareVersions [''2.0.0'', ''1.10.0'', ''1.2.0'']
     = [''1.2.0'', ''1.10.0'', ''2.0.0'']
   \<and> versions (summary (generateReport versioned_snapshots [] no_filters 0))
     = [''1.2.0'', ''1.10.0'', ''2.0.0'']"
  using version_sort[of "''1''" "''1''" "[''2.0.0'', ''1.10.0'', ''1.2.0'']"
          versioned_snapshots "[]" no_filters 0]
  by (simp add: versioned_report insert_commute)

section \<open>The report generator: changes and importance\<close>

lemma report_change_hit:
  "field_selected flds k \<Longrightarrow> stringify (get_field cur k) \<noteq> stringify (get_field prev k) \<Longrightarrow>
   report_change config flds cur prev k (chg, n)
     = (js_assign k (FieldChange (get_field prev k) (get_field cur k)) chg,
        if config_important config k then n + 1 else n)"
  by (simp add: report_change_def)

lemma report_change_miss:
  "\<not> (field_selected flds k \<and> stringify (get_field cur k) \<noteq> stringify (get_field prev k)) \<Longrightarrow>
   report_change config flds cur prev k (chg, n) = (chg, n)"
  by (auto simp: report_change_def)

lemma report_fold:
  "fold (report_change config flds cur prev) ks (chg0, n0) = (chg, n)
   \<Longrightarrow> report_inv config flds cur prev ks chg0 n0 chg n"
proof (induction ks arbitrary: chg0 n0)
  case Nil
  then show ?case by (simp add: report_inv_def)
next
  case (Cons k ks)
  show ?case
  proof (cases "field_selected flds k \<and> differs cur prev k")
    case True
    with Cons.prems have "fold (report_change config flds cur prev) ks
        (js_assign k (FieldChange (get_field prev k) (get_field cur k)) chg0,
         if config_important config k then n0 + 1 else n0) = (chg, n)"
      by (simp add: report_change_hit differs_def)
    from Cons.IH[OF this] True show ?thesis
      by (auto simp: report_inv_def js_assign_map_of js_assign_distinct)
  next
    case False
    with Cons.prems have "fold (report_change config flds cur prev) ks (chg0, n0) = (chg, n)"
      by (simp add: report_change_miss differs_def)
    from Cons.IH[OF this] False show ?thesis
      by (auto simp: report_inv_def)
  qed
qed

lemma process_snapshot_Some:
  assumes "fold (report_change config flds (state s) (state prev)) (map fst (state s)) ([], 0)
             = (chg, n)"
  shows "process_snapshot config flds (Some prev) s =
     \<lparr> snapshot = s, changes = (if length chg > 0 then Some chg else None),
       importance = (if n > 0 then High else if length chg > 3 then Medium else Low) \<rparr>"
  using assms by (simp add: process_snapshot_def)

lemma process_snapshot_None:
  "process_snapshot config flds None s = \<lparr> snapshot = s, changes = None, importance = Low \<rparr>"
  by (simp add: process_snapshot_def)

lemma process_snapshot_changes:
  "snapshot (process_snapshot config flds (Some prev) s) = s \<and>
   distinct (map fst (changes_of (process_snapshot config flds (Some prev) s))) \<and>
   map_of (changes_of (process_snapshot config flds (Some prev) s)) k =
     (if k \<in> fst ` set (state s) \<and> k \<noteq> ''__proto__'' \<and> field_selected flds k
         \<and> stringify (get_field (state s) k) \<noteq> stringify (get_field (state prev) k)
      then Some (FieldChange (get_field (state prev) k) (get_field (state s) k))
      else None)"
proof -
  obtain chg n where f:
    "fold (report_change config flds (state s) (state prev)) (map fst (state s)) ([], 0)
       = (chg, n)"
    by fastforce
  have inv: "report_inv config flds (state s) (state prev) (map fst (state s)) [] 0 chg n"
    by (rule report_fold[OF f])
  have c: "changes_of (process_snapshot config flds (Some prev) s) = chg"
    by (cases chg) (simp_all add: process_snapshot_Some[OF f] changes_of_def)
  show ?thesis
    using inv unfolding c by (simp add: process_snapshot_Some[OF f] report_inv_def differs_def)
qed








lemma insert_by_timestamp:
  "insert_by (\<lambda>a b. timestamp a - timestamp b) x ys = insort_key timestamp x ys"
  by (induction ys) simp_all

lemma sort_by_timestamp:
  "sort_by (\<lambda>a b. timestamp a - timestamp b) xs = sort_key timestamp xs"
  by (induction xs) (simp_all add: sort_by_def insert_by_timestamp)

lemma filteredSnapshots_filter:
  "filteredSnapshots filters snaps
     = filter (passes_filters filters) (sort_key timestamp snaps)"
  by (auto simp: filteredSnapshots_def sort_by_timestamp passes_filters_def Let_def
        split: option.splits list.splits intro!: filter_cong)

lemma filteredSnapshots_sorted:
  "sorted (map timestamp (filteredSnapshots filters snaps))"
  unfolding filteredSnapshots_filter by (rule sorted_filter) simp

text \<open>
  Claim C1, as the code has it. For every list of snapshots, configuration and filters,
  the filtered list is the list of the snapshots that pass the filters on the dates and
  versions, in the order of their times (snapshots of the same time in the order given).
  The changes of its \<open>i\<close>-th snapshot (\<open>i > 0\<close>) are computed against the snapshot
  before it in that list: a field other than \<^verbatim>\<open>__proto__\<close> is changed exactly when it
  is a key of the snapshot's own state, is selected by \<^verbatim>\<open>filters.fields\<close> when that is
  given, and the \<^verbatim>\<open>JSON.stringify\<close> texts of its two values differ; the change
  records the value before and the value after. The first snapshot has no changes.
\<close>

theorem report_changes_by_serialization:
  assumes "0 < i" and "i < length (filteredSnapshots filters snaps)"
  shows "filteredSnapshots filters snaps
           = filter (passes_filters filters) (sort_key timestamp snaps)
       \<and> sorted (map timestamp (filteredSnapshots filters snaps))
       \<and> snapshot (processedSnapshots config filters snaps ! i)
           = filteredSnapshots filters snaps ! i
       \<and> distinct (map fst (changes_of (processedSnapshots config filters snaps ! i)))
       \<and> (\<forall>k. k \<noteq> ''__proto__'' \<longrightarrow>
             map_of (changes_of (processedSnapshots config filters snaps ! i)) k =
             (if k \<in> fst ` set (state (filteredSnapshots filters snaps ! i))
                 \<and> field_selected (filter_fields filters) k
                 \<and> stringify (get_field (state (filteredSnapshots filters snaps ! i)) k)
                     \<noteq> stringify
                         (get_field (state (filteredSnapshots filters snaps ! (i - 1))) k)
              then Some (FieldChange
                           (get_field (state (filteredSnapshots filters snaps ! (i - 1))) k)
                           (get_field (state (filteredSnapshots filters snaps ! i)) k))
              else None))
       \<and> changes (processedSnapshots config filters snaps ! 0) = None"
proof -
  have p: "processedSnapshots config filters snaps ! i =
      process_snapshot config (filter_fields filters)
        (Some (filteredSnapshots filters snaps ! (i - 1))) (filteredSnapshots filters snaps ! i)"
    using assms by (simp add: processedSnapshots_def Let_def)
  have z: "processedSnapshots config filters snaps ! 0 =
      process_snapshot config (filter_fields filters) None (filteredSnapshots filters snaps ! 0)"
  proof -
    from assms have "0 < length (filteredSnapshots filters snaps)" by linarith
    then show ?thesis by (simp add: processedSnapshots_def Let_def)
  qed
  have first: "changes (processedSnapshots config filters snaps ! 0) = None"
    by (simp add: z process_snapshot_None)
  note pc = process_snapshot_changes[of config "filter_fields filters"
      "filteredSnapshots filters snaps ! (i - 1)" "filteredSnapshots filters snaps ! i"]
  show ?thesis
    unfolding p
  proof (intro conjI allI impI)
    fix k :: string
    assume "k \<noteq> ''__proto__''"
    then show "map_of (changes_of (process_snapshot config (filter_fields filters)
               (Some (filteredSnapshots filters snaps ! (i - 1)))
               (filteredSnapshots filters snaps ! i))) k =
          (if k \<in> fst ` set (state (filteredSnapshots filters snaps ! i))
              \<and> field_selected (filter_fields filters) k
              \<and> stringify (get_field (state (filteredSnapshots filters snaps ! i)) k)
                  \<noteq> stringify (get_field (state (filteredSnapshots filters snaps ! (i - 1))) k)
           then Some (FieldChange
                        (get_field (state (filteredSnapshots filters snaps ! (i - 1))) k)
                        (get_field (state (filteredSnapshots filters snaps ! i)) k))
           else None)"
      using pc[of k] by simp
  next
    show "snapshot (process_snapshot config (filter_fields filters)
               (Some (filteredSnapshots filters snaps ! (i - 1)))
               (filteredSnapshots filters snaps ! i)) = filteredSnapshots filters snaps ! i"
      using pc by blast
  next
    show "distinct (map fst (changes_of (process_snapshot config (filter_fields filters)
               (Some (filteredSnapshots filters snaps ! (i - 1)))
               (filteredSnapshots filters snaps ! i))))"
      using pc by blast
  next
    from first z show "changes (processedSnapshots config filters snaps ! 0) = None" by simp
  next
    show "filteredSnapshots filters snaps
           = filter (passes_filters filters) (sort_key timestamp snaps)"
      by (rule filteredSnapshots_filter)
  next
    show "sorted (map timestamp (filteredSnapshots filters snaps))"
      by (rule filteredSnapshots_sorted)
  qed
qed

lemma note_filtered:
  "filteredSnapshots until_two
     [note_snapshot 3 ''r'', note_snapshot 2 ''q'', note_snapshot 1 ''p'']
     = [note_snapshot 1 ''p'', note_snapshot 2 ''q'']"
  by (simp add: filteredSnapshots_def until_two_def sort_by_def note_snapshot_def)

lemma note_values:
  "stringify (JStr ''q'') \<noteq> stringify (JStr ''p'')"
  by code_simp

theorem report_changes_by_serialization_witness:
  "filteredSnapshots until_two
     [note_snapshot 3 ''r'', note_snapshot 2 ''q'', note_snapshot 1 ''p'']
     = [note_snapshot 1 ''p'', note_snapshot 2 ''q'']
   \<and> filter (passes_filters until_two)
       (sort_key timestamp [note_snapshot 3 ''r'', note_snapshot 2 ''q'', note_snapshot 1 ''p''])
     = [note_snapshot 1 ''p'', note_snapshot 2 ''q'']
   \<and> map_of (changes_of (processedSnapshots login_config until_two
         [note_snapshot 3 ''r'', note_snapshot 2 ''q'', note_snapshot 1 ''p''] ! 1)) ''note''
     = Some (FieldChange (JStr ''p'') (JStr ''q''))
   \<and> map_of (changes_of (processedSnapshots login_config until_two
         [note_snapshot 3 ''r'', note_snapshot 2 ''q'', note_snapshot 1 ''p''] ! 1)) ''email''
     = None
   \<and> map_of (changes_of (processedSnapshots login_config until_two
         [note_snapshot 3 ''r'', note_snapshot 2 ''q'', note_snapshot 1 ''p''] ! 1))
       ''constructor''
     = None"
proof -
  let ?snaps = "[note_snapshot 3 ''r'', note_snapshot 2 ''q'', note_snapshot 1 ''p'']"
  have a: "(0::nat) < 1" by simp
  have b: "1 < length (filteredSnapshots until_two ?snaps)"
    by (simp add: note_filtered)
  note whole = report_changes_by_serialization[OF a b, of login_config]
  note f = whole[THEN conjunct1]
  note t = whole[THEN conjunct2, THEN conjunct2, THEN conjunct2, THEN conjunct2,
             THEN conjunct1, rule_format, unfolded note_filtered]
  have s1: "state ([note_snapshot 1 ''p'', note_snapshot 2 ''q''] ! 1)
              = [(''email'', JStr ''x''), (''note'', JStr ''q'')]"
    by (simp add: note_snapshot_def)
  have s0: "state ([note_snapshot 1 ''p'', note_snapshot 2 ''q''] ! (1 - 1))
              = [(''email'', JStr ''x''), (''note'', JStr ''p'')]"
    by (simp add: note_snapshot_def)
  have sel: "filter_fields until_two = None"
    by (simp add: until_two_def)
  have n: "map_of (changes_of (processedSnapshots login_config until_two ?snaps ! 1)) ''note''
     = Some (FieldChange (JStr ''p'') (JStr ''q''))"
    by (subst t[of "''note''"], simp, unfold s1 s0 sel)
       (simp add: get_field_def field_selected_def note_values)
  have e: "map_of (changes_of (processedSnapshots login_config until_two ?snaps ! 1)) ''email''
     = None"
    by (subst t[of "''email''"], simp, unfold s1 s0 sel)
       (simp add: get_field_def field_selected_def note_values)
  have c: "map_of (changes_of (processedSnapshots login_config until_two ?snaps ! 1))
       ''constructor'' = None"
    by (subst t[of "''constructor''"], simp, unfold s1 s0 sel)
       (simp add: get_field_def field_selected_def note_values)
  from f have g: "filter (passes_filters until_two) (sort_key timestamp ?snaps)
     = [note_snapshot 1 ''p'', note_snapshot 2 ''q'']"
    by (simp only: note_filtered)
  from note_filtered g n e c show ?thesis by simp
qed

text \<open>
  The claim C1 as stated fails: the check of \<^verbatim>\<open>generateReport\<close> is not the check of
  \<^verbatim>\<open>createAutoSnapshot\<close>. Two arrays with the same content in different objects are
  no change for the report and a change for \<^verbatim>\<open>!==\<close>; a field of the state that the
  configuration does not list is a change for the report and is not looked at by
  \<^verbatim>\<open>createAutoSnapshot\<close>.
\<close>

theorem report_changes_not_strict_check:
  "changes_of (processedSnapshots tags_config no_filters
                 [tags_snapshot 1 1, tags_snapshot 2 2] ! 1) = []
   \<and> autoChanges tags_config (state (tags_snapshot 2 2)) (state (tags_snapshot 1 1))
       = [(''tags'', FieldChange (JArr 1 [JStr ''a'']) (JArr 2 [JStr ''a'']))]
   \<and> changes_of (processedSnapshots login_config no_filters
                   [note_snapshot 1 ''p'', note_snapshot 2 ''q''] ! 1)
       = [(''note'', FieldChange (JStr ''p'') (JStr ''q''))]
   \<and> autoChanges login_config (state (note_snapshot 2 ''q'')) (state (note_snapshot 1 ''p''))
       = []"
  by code_simp

section \<open>The formatters: what reaches the document unescaped\<close>

lemma sublist_trans: "sublist xs ys \<Longrightarrow> sublist ys zs \<Longrightarrow> sublist xs zs"
  using sublist_order.order.trans by blast

lemma sublist_concat_window:
  assumes "sublist needle (concat (take n (drop i xs)))"
  shows "sublist needle (concat xs)"
proof -
  have "xs = take i xs @ take n (drop i xs) @ drop n (drop i xs)"
    by (simp only: append_take_drop_id)
  then have "concat xs = concat (take i xs) @ concat (take n (drop i xs))
                           @ concat (drop n (drop i xs))"
    by (metis concat_append)
  moreover have "sublist (concat (take n (drop i xs)))
      (concat (take i xs) @ concat (take n (drop i xs)) @ concat (drop n (drop i xs)))"
    by (rule sublist_appendI)
  ultimately show ?thesis
    using assms sublist_trans by metis
qed

lemma sublist_concat_member: "x \<in> set xs \<Longrightarrow> sublist x (concat xs)"
proof -
  assume "x \<in> set xs"
  then obtain a b where "xs = a @ x # b" by (meson split_list)
  then have "concat xs = concat a @ x @ concat b" by simp
  then show ?thesis by (metis sublist_appendI)
qed

text \<open>The summary card holds the joined versions as they are, in every report.\<close>

lemma html_summary_versions:
  "sublist (''<td>'' @ join '', '' (versions s) @ ''</td>'') (html_summary env s)"
  unfolding html_summary_def
  by (rule sublist_concat_window[where i = 47 and n = 3]) (simp add: sublist_Cons_right)

lemma html_versions_raw:
  assumes "formatHtmlReport env report = Inr out"
  shows "sublist (''<td>'' @ join '', '' (versions (summary report)) @ ''</td>'') out"
proof -
  from assms obtain rest where "out = html_head @ html_summary env (summary report) @ rest"
    by (auto simp: formatHtmlReport_def split: sum.splits)
  then have "sublist (html_summary env (summary report)) out"
    by (simp only: sublist_appendI)
  with html_summary_versions show ?thesis by (rule sublist_trans)
qed

lemma html_low_group_sections:
  "sublist s (html_groups [] [] [s])"
proof -
  have "sublist (join nl [s]) (html_low_group [s])"
    unfolding html_low_group_def by (subst if_P, simp, rule sublist_concat_member, simp)
  moreover have "sublist (html_low_group [s]) (html_groups [] [] [s])"
    unfolding html_groups_def by (rule sublist_concat_member) simp
  ultimately show ?thesis using sublist_trans by fastforce
qed

lemma markup_report_value:
  "markup_report =
     \<lparr> summary = \<lparr> totalSnapshots = 1, dateRange_from = 86400000, dateRange_to = 86400000,
                     versions = [''<b>*1.0*</b>''], totalChanges = 0, importantChanges = 0 \<rparr>,
       snapshots = [\<lparr> snapshot = markup_snapshot, changes = None, importance = Low \<rparr>] \<rparr>"
  by (simp add: markup_report_def generateReport_def processedSnapshots_def
        filteredSnapshots_def no_filters_def sort_by_def process_snapshot_def
        timestamp_or_now_def new_Set_def flag_def markup_snapshot_def)

lemma markup_section:
  "(case formatSnapshotSection fixed_dates
           \<lparr> snapshot = markup_snapshot, changes = None, importance = Low \<rparr> of
      Inl e \<Rightarrow> False
    | Inr out \<Rightarrow> sublist ''Version &lt;b&gt;*1.0*&lt;/b&gt;'' out)"
  by code_simp

lemma markup_markdown:
  "(case formatMarkdownReport fixed_dates
           \<lparr> summary = \<lparr> totalSnapshots = 1, dateRange_from = 86400000,
                           dateRange_to = 86400000, versions = [''<b>*1.0*</b>''],
                           totalChanges = 0, importantChanges = 0 \<rparr>,
             snapshots = [\<lparr> snapshot = markup_snapshot, changes = None,
                            importance = Low \<rparr>] \<rparr> of
      Inl e \<Rightarrow> False
    | Inr out \<Rightarrow>
        sublist ''| Versions | <b>*1.0*</b> |'' out
        \<and> sublist (''#### Version <b>'' @ [CHR 0x5C] @ ''*1.0'' @ [CHR 0x5C] @ ''*</b>'') out)"
  by code_simp

text \<open>
  Claim C8 fails on the code. The report of one snapshot whose version is
  \<^verbatim>\<open><b>*1.0*</b>\<close> is formatted without an exception by both formatters. The HTML
  document holds the version as it is in the summary table, while the section of the
  snapshot holds it escaped by \<^verbatim>\<open>htmlEscape\<close>; the Markdown document holds it as
  it is in the summary table, while the heading of the snapshot holds it escaped by
  \<^verbatim>\<open>mdEscape\<close> (which leaves the angle brackets).
\<close>

theorem formatters_embed_versions_raw:
  "versions (summary markup_report) = [''<b>*1.0*</b>'']
   \<and> (case formatHtmlReport fixed_dates markup_report of
         Inl e \<Rightarrow> False
       | Inr out \<Rightarrow>
           sublist ''<td><b>*1.0*</b></td>'' out
           \<and> sublist ''Version &lt;b&gt;*1.0*&lt;/b&gt;'' out)
   \<and> (case formatMarkdownReport fixed_dates markup_report of
         Inl e \<Rightarrow> False
       | Inr out \<Rightarrow>
           sublist ''| Versions | <b>*1.0*</b> |'' out
           \<and> sublist (''#### Version <b>'' @ [CHR 0x5C] @ ''*1.0'' @ [CHR 0x5C] @ ''*</b>'')
                 out)"
proof (intro conjI)
  show "versions (summary markup_report) = [''<b>*1.0*</b>'']"
    by (simp add: markup_report_value)
next
  obtain s where s: "formatSnapshotSection fixed_dates
           \<lparr> snapshot = markup_snapshot, changes = None, importance = Low \<rparr> = Inr s"
    and escaped: "sublist ''Version &lt;b&gt;*1.0*&lt;/b&gt;'' s"
    using markup_section
    by (cases "formatSnapshotSection fixed_dates
           \<lparr> snapshot = markup_snapshot, changes = None, importance = Low \<rparr>") auto
  have out: "formatHtmlReport fixed_dates markup_report =
      Inr (html_head @ html_summary fixed_dates (summary markup_report)
             @ html_groups [] [] [s])"
    by (simp add: formatHtmlReport_def markup_report_value s)
  have raw: "sublist (''<td>'' @ join '', '' (versions (summary markup_report)) @ ''</td>'')
      (html_head @ html_summary fixed_dates (summary markup_report) @ html_groups [] [] [s])"
    by (rule html_versions_raw[OF out])
  have "sublist s (html_head @ html_summary fixed_dates (summary markup_report)
                     @ html_groups [] [] [s])"
    using html_low_group_sections[of s]
    by (metis append.assoc sublist_append_leftI sublist_trans)
  with escaped have "sublist ''Version &lt;b&gt;*1.0*&lt;/b&gt;''
      (html_head @ html_summary fixed_dates (summary markup_report) @ html_groups [] [] [s])"
    by (rule sublist_trans)
  moreover from raw have "sublist ''<td><b>*1.0*</b></td>''
      (html_head @ html_summary fixed_dates (summary markup_report) @ html_groups [] [] [s])"
    by (simp add: markup_report_value)
  ultimately show "case formatHtmlReport fixed_dates markup_report of
         Inl e \<Rightarrow> False
       | Inr out \<Rightarrow>
           sublist ''<td><b>*1.0*</b></td>'' out
           \<and> sublist ''Version &lt;b&gt;*1.0*&lt;/b&gt;'' out"
    by (simp only: out sum.case simp_thms)
next
  show "case formatMarkdownReport fixed_dates markup_report of
         Inl e \<Rightarrow> False
       | Inr out \<Rightarrow>
           sublist ''| Versions | <b>*1.0*</b> |'' out
           \<and> sublist (''#### Version <b>'' @ [CHR 0x5C] @ ''*1.0'' @ [CHR 0x5C] @ ''*</b>'')
                 out"
    unfolding markup_report_value by (rule markup_markdown)
qed

end
